theory Spec2Isabelle
  imports Main "HOL-Library.Multiset"
begin

section \<open>fluentd-reloader: the data of one run\<close>

text \<open>
  The program is a single Go file (package main): \<open>getConfig\<close>, \<open>getFluentdIPs\<close>,
  \<open>getCRD\<close>, \<open>checkCert\<close>, \<open>reloadFluentdConfig\<close> and \<open>main\<close>. The repository also
  keeps an earlier \<open>main.go\<close>, in which \<open>main\<close> reads two environment variables and
  selects certificates by a substring test inside its own loop; the version embedded here
  is the one that reads \<open>FLUENTD_CERT_NAME\<close>, as the CronJob manifest sets it, and looks
  the certificate up with \<open>getCRD\<close>. \<open>getFluentdIPs\<close>, \<open>checkCert\<close> and
  \<open>reloadFluentdConfig\<close> have the same bodies in both.

  Everything the program learns comes from outside (the process environment, the
  Kubernetes API, a TLS server, the fluentd replicas), so the embedding takes those
  answers as a record \<open>world\<close> and threads the list of effects the run has performed so
  far, oldest first.
\<close>

subsection \<open>Timestamps\<close>

text \<open>
  Go's \<open>time.Time\<close> as the program meets it: seconds and nanoseconds of the instant and the
  location it is displayed in. Times parsed from a certificate or from JSON carry no
  monotonic clock reading, so \<open>Time.Equal\<close> compares the instant and ignores the location.
\<close>

record Time =
  sec :: int
  nsec :: int
  loc :: string

definition Time_Equal :: "Time \<Rightarrow> Time \<Rightarrow> bool" where
  "Time_Equal t u \<longleftrightarrow> sec t = sec u \<and> nsec t = nsec u"

text \<open>\<open>metav1.Time\<close> wraps a \<open>time.Time\<close>; \<open>metav1.NewTime\<close> wraps its argument unchanged.\<close>

type_synonym metav1_Time = Time

definition NewTime :: "Time \<Rightarrow> metav1_Time" where
  "NewTime t = t"

text \<open>
  \<open>(*metav1.Time).Equal\<close> on two pointers: two nil pointers are equal, two non-nil
  pointers are compared with \<open>Time.Equal\<close>, a nil and a non-nil pointer are not equal.
\<close>

fun metav1_Equal :: "metav1_Time option \<Rightarrow> metav1_Time option \<Rightarrow> bool" where
  "metav1_Equal None None = True"
| "metav1_Equal (Some t) (Some u) = Time_Equal t u"
| "metav1_Equal _ _ = False"

definition Second :: int where
  "Second = 1000000000"

subsection \<open>Cluster objects, connections, HTTP\<close>

record Pod =
  pod_Name :: string
  pod_Labels :: "string \<rightharpoonup> string"
  pod_Status_PodIP :: string

record Certificate =
  cert_Name :: string
  cert_Status_NotAfter :: "metav1_Time option"
  cert_Status_RenewalTime :: "metav1_Time option"

record x509_Certificate =
  NotAfter :: Time
  Issuer :: string
  x509_VerifyHostname :: "string \<Rightarrow> string option"

record Conn =
  PeerCertificates :: "x509_Certificate list"

text \<open>
  \<open>(*tls.Conn).VerifyHostname\<close>: an error when the handshake left no verified chain,
  otherwise the answer of the leaf certificate. \<open>None\<close> is Go's nil error.
\<close>

definition Conn_VerifyHostname :: "Conn \<Rightarrow> string \<Rightarrow> string option" where
  "Conn_VerifyHostname c host =
     (case PeerCertificates c of
        [] \<Rightarrow> Some ''tls: handshake did not verify certificate chain''
      | leaf # _ \<Rightarrow> x509_VerifyHostname leaf host)"

record Request =
  Method :: string
  URL :: string

text \<open>
  A response: status code, status line, and what \<open>io.ReadAll\<close> makes of the body
  (\<open>Inl\<close> its error, \<open>Inr\<close> the bytes).
\<close>

record Response =
  StatusCode :: int
  Status :: string
  Body :: "string + string"

subsection \<open>Effects\<close>

datatype logline =
    LogPodSkipped string
  | LogNotFluentdCertificate string
  | LogIssuerExpiry string Time
  | LogReloading string
  | LogResponse string
  | LogWillExpire Time
  | LogWillBeRenewed "metav1_Time option"
  | LogValid
  | LogNotValid
  | LogShouldExpire "metav1_Time option" Time

datatype event =
    PodsList string string
  | TlsDial string string
  | CertificatesGet string
  | ClientDo Request int
  | Log logline

text \<open>
  The answers of the outside world. An error is its message. \<open>client_Do\<close> sees the
  effects performed so far, so a replica may answer differently each time.
\<close>

record world =
  rest_InClusterConfig :: "string option"
  kubernetes_NewForConfig :: "string option"
  os_LookupEnv :: "string \<rightharpoonup> string"
  Pods_List :: "string \<Rightarrow> string \<Rightarrow> string + Pod list"
  RESTClient_Get :: "string \<Rightarrow> string + Certificate list"
  net_Dial :: "string \<Rightarrow> string \<Rightarrow> string option"
  tls_Handshake :: "string \<Rightarrow> string + Conn"
  http_NewRequest_err :: "string \<Rightarrow> string \<Rightarrow> string option"
  client_Do :: "event list \<Rightarrow> int \<Rightarrow> Request \<Rightarrow> string + Response"
  EqualFold_hasUnicode :: "string \<Rightarrow> string \<Rightarrow> bool"

text \<open>\<open>tls.Dial\<close>: connect, then shake hands; either may fail.\<close>

definition tls_Dial :: "world \<Rightarrow> string \<Rightarrow> string \<Rightarrow> string + Conn" where
  "tls_Dial w network addr =
     (case net_Dial w network addr of
        Some err \<Rightarrow> Inl err
      | None \<Rightarrow> tls_Handshake w addr)"

subsection \<open>Errors\<close>

text \<open>One constructor for each place where the program returns an error or panics.\<close>

datatype error =
    ClientSetup string
  | EnvNotSet string
  | FailedToGetPods string
  | FailedToGetCertificates string
  | FailedToFindCertificate
  | NoSSL string
  | HostnameMismatch string
  | FailedToCreateRequest string
  | FailedToSendRequest string
  | FailedToReload string
  | FailedToReadBody string
  | IndexOutOfRange

text \<open>The error taxonomy of the specification, and the class of each error site.\<close>

datatype error_kind =
    ConfigurationError | DiscoveryError | ProbeError | LookupError | NotFoundError
  | ReloadError | OtherError

fun kind :: "error \<Rightarrow> error_kind" where
  "kind (EnvNotSet _) = ConfigurationError"
| "kind (FailedToGetPods _) = DiscoveryError"
| "kind (NoSSL _) = ProbeError"
| "kind (HostnameMismatch _) = ProbeError"
| "kind (FailedToGetCertificates _) = LookupError"
| "kind FailedToFindCertificate = NotFoundError"
| "kind (FailedToCreateRequest _) = ReloadError"
| "kind (FailedToSendRequest _) = ReloadError"
| "kind (FailedToReload _) = ReloadError"
| "kind (FailedToReadBody _) = ReloadError"
| "kind (ClientSetup _) = OtherError"
| "kind IndexOutOfRange = OtherError"

section \<open>The program\<close>

record app =
  app_namespace :: string
  app_certName :: string

record config =
  config_serviceURL :: string
  config_certName :: string
  config_namespace :: string

definition getConfig :: "world \<Rightarrow> error + config" where
  "getConfig w =
     (case os_LookupEnv w ''FLUENTD_SERVICE_URL'' of
        None \<Rightarrow> Inl (EnvNotSet ''FLUENTD_SERVICE_URL is not set'')
      | Some serviceURL \<Rightarrow>
     (case os_LookupEnv w ''FLUENTD_CERT_NAME'' of
        None \<Rightarrow> Inl (EnvNotSet ''FLUENTD_CERT_NAME is not set'')
      | Some certName \<Rightarrow>
     (case os_LookupEnv w ''FLUENTD_NAMESPACE'' of
        None \<Rightarrow> Inl (EnvNotSet ''FLUENTD_NAMESPACE is not set'')
      | Some namespace \<Rightarrow>
          Inr \<lparr>config_serviceURL = serviceURL, config_certName = certName,
               config_namespace = namespace\<rparr>)))"

text \<open>The loop of \<open>getFluentdIPs\<close> over \<open>pods.Items\<close>, with the slice it appends to.\<close>

fun getFluentdIPs_loop :: "Pod list \<Rightarrow> string list \<Rightarrow> event list \<Rightarrow> string list \<times> event list" where
  "getFluentdIPs_loop [] fluentdIPs tr = (fluentdIPs, tr)"
| "getFluentdIPs_loop (pod # pods) fluentdIPs tr =
     (case pod_Labels pod ''statefulset.kubernetes.io/pod-name'' of
        None \<Rightarrow> getFluentdIPs_loop pods fluentdIPs (tr @ [Log (LogPodSkipped (pod_Name pod))])
      | Some _ \<Rightarrow> getFluentdIPs_loop pods (fluentdIPs @ [pod_Status_PodIP pod]) tr)"

definition getFluentdIPs :: "world \<Rightarrow> app \<Rightarrow> event list \<Rightarrow> (error + string list) \<times> event list" where
  "getFluentdIPs w a tr =
     (let LabelSelector = ''app='' @ app_namespace a;
          tr1 = tr @ [PodsList (app_namespace a) LabelSelector]
      in case Pods_List w (app_namespace a) LabelSelector of
           Inl err \<Rightarrow> (Inl (FailedToGetPods err), tr1)
         | Inr items \<Rightarrow>
             (case getFluentdIPs_loop items [] tr1 of
                (fluentdIPs, tr2) \<Rightarrow> (Inr fluentdIPs, tr2)))"

text \<open>
  Go's \<open>strings.EqualFold\<close> on byte strings. Its first loop handles ASCII bytes: equal
  bytes match, and so do an upper-case letter and its lower-case form. At the first byte
  that is not ASCII the library continues with Unicode simple folding on the rest of both
  strings (its label \<open>hasUnicode\<close>); the folding tables are not part of this program,
  so that continuation is the world's \<open>EqualFold_hasUnicode\<close>.
\<close>

fun EqualFold :: "world \<Rightarrow> string \<Rightarrow> string \<Rightarrow> bool" where
  "EqualFold w (sr # s) (tr # t) =
     (if 128 \<le> (of_char sr :: nat) \<or> 128 \<le> (of_char tr :: nat)
        then EqualFold_hasUnicode w (sr # s) (tr # t)
      else if tr = sr then EqualFold w s t
      else if 65 \<le> min (of_char sr :: nat) (of_char tr)
            \<and> min (of_char sr :: nat) (of_char tr) \<le> 90
            \<and> max (of_char sr :: nat) (of_char tr) = min (of_char sr) (of_char tr) + 32
        then EqualFold w s t
      else False)"
| "EqualFold w s t = (length s = length t)"

text \<open>The loop of \<open>getCRD\<close> over \<open>certificates.Items\<close>.\<close>

fun getCRD_loop :: "world \<Rightarrow> string \<Rightarrow> Certificate list \<Rightarrow> event list \<Rightarrow> (error + Certificate) \<times> event list" where
  "getCRD_loop w certName [] tr = (Inl FailedToFindCertificate, tr)"
| "getCRD_loop w certName (cert # certs) tr =
     (if EqualFold w (cert_Name cert) certName then (Inr cert, tr)
      else getCRD_loop w certName certs (tr @ [Log (LogNotFluentdCertificate (cert_Name cert))]))"

definition getCRD :: "world \<Rightarrow> app \<Rightarrow> event list \<Rightarrow> (error + Certificate) \<times> event list" where
  "getCRD w a tr =
     (let uri = ''/apis/cert-manager.io/v1/namespaces/'' @ app_namespace a @ ''/certificates'';
          tr1 = tr @ [CertificatesGet uri]
      in case RESTClient_Get w uri of
           Inl err \<Rightarrow> (Inl (FailedToGetCertificates err), tr1)
         | Inr items \<Rightarrow> getCRD_loop w (app_certName a) items tr1)"

text \<open>
  \<open>checkCert\<close>. Indexing \<open>PeerCertificates[0]\<close> on an empty slice is a run-time panic,
  kept as the error \<open>IndexOutOfRange\<close>.
\<close>

definition checkCert :: "world \<Rightarrow> string \<Rightarrow> event list \<Rightarrow> (error + Time) \<times> event list" where
  "checkCert w serviceURL tr =
     (let addr = serviceURL @ '':443'';
          tr1 = tr @ [TlsDial ''tcp'' addr]
      in case tls_Dial w ''tcp'' addr of
           Inl err \<Rightarrow> (Inl (NoSSL err), tr1)
         | Inr conn \<Rightarrow>
             (case Conn_VerifyHostname conn serviceURL of
                Some err \<Rightarrow> (Inl (HostnameMismatch err), tr1)
              | None \<Rightarrow>
                  (case PeerCertificates conn of
                     [] \<Rightarrow> (Inl IndexOutOfRange, tr1)
                   | leaf # _ \<Rightarrow>
                       (Inr (NotAfter leaf),
                        tr1 @ [Log (LogIssuerExpiry (Issuer leaf) (NotAfter leaf))]))))"

text \<open>One iteration of the loop of \<open>reloadFluentdConfig\<close>: the request to one address.\<close>

definition reloadFluentdConfig_body :: "world \<Rightarrow> string \<Rightarrow> event list \<Rightarrow> (error + unit) \<times> event list" where
  "reloadFluentdConfig_body w ip tr =
     (let tr1 = tr @ [Log (LogReloading ip)];
          url = ''http://'' @ ip @ '':24444/api/config.gracefulReload''
      in case http_NewRequest_err w ''GET'' url of
           Some err \<Rightarrow> (Inl (FailedToCreateRequest err), tr1)
         | None \<Rightarrow>
             (let req = \<lparr>Method = ''GET'', URL = url\<rparr>;
                  tr2 = tr1 @ [ClientDo req (5 * Second)]
              in case client_Do w tr1 (5 * Second) req of
                   Inl err \<Rightarrow> (Inl (FailedToSendRequest err), tr2)
                 | Inr resp \<Rightarrow>
                     if StatusCode resp \<ge> 400 then (Inl (FailedToReload (Status resp)), tr2)
                     else (case Body resp of
                             Inl err \<Rightarrow> (Inl (FailedToReadBody err), tr2)
                           | Inr b \<Rightarrow> (Inr (), tr2 @ [Log (LogResponse b)]))))"

fun reloadFluentdConfig :: "world \<Rightarrow> string list \<Rightarrow> event list \<Rightarrow> (error + unit) \<times> event list" where
  "reloadFluentdConfig w [] tr = (Inr (), tr)"
| "reloadFluentdConfig w (ip # ips) tr =
     (case reloadFluentdConfig_body w ip tr of
        (r, tr') \<Rightarrow>
          (case r of
             Inl e \<Rightarrow> (Inl e, tr')
           | Inr _ \<Rightarrow> reloadFluentdConfig w ips tr'))"

text \<open>
  \<open>main\<close>. The result is \<open>Inl e\<close> when the process panics with \<open>e\<close> (abnormal exit) and
  \<open>Inr ()\<close> when \<open>main\<close> returns; the second component is everything the run did.
\<close>

definition main :: "world \<Rightarrow> (error + unit) \<times> event list" where
  "main w =
     (case rest_InClusterConfig w of
        Some err \<Rightarrow> (Inl (ClientSetup err), [])
      | None \<Rightarrow>
     (case kubernetes_NewForConfig w of
        Some err \<Rightarrow> (Inl (ClientSetup err), [])
      | None \<Rightarrow>
     (case getConfig w of
        Inl e \<Rightarrow> (Inl e, [])
      | Inr config \<Rightarrow>
     (let a = \<lparr>app_namespace = config_namespace config, app_certName = config_certName config\<rparr>
      in case getFluentdIPs w a [] of
        (Inl e, tr1) \<Rightarrow> (Inl e, tr1)
      | (Inr fluentdIPs, tr1) \<Rightarrow>
     (case checkCert w (config_serviceURL config) tr1 of
        (Inl e, tr2) \<Rightarrow> (Inl e, tr2)
      | (Inr expiry, tr2) \<Rightarrow>
     (case getCRD w a tr2 of
        (Inl e, tr3) \<Rightarrow> (Inl e, tr3)
      | (Inr certificate, tr3) \<Rightarrow>
     (let tr4 = tr3 @ [Log (LogWillExpire expiry)];
          t = NewTime expiry
      in if metav1_Equal (cert_Status_NotAfter certificate) (Some t)
         then (Inr (),
               tr4 @ [Log (LogWillBeRenewed (cert_Status_RenewalTime certificate)),
                      Log LogValid])
         else reloadFluentdConfig w fluentdIPs
                (tr4 @ [Log LogNotValid,
                        Log (LogShouldExpire (cert_Status_NotAfter certificate) expiry)]))))))))"

subsection \<open>Reading a run\<close>

text \<open>The reload requests a run sent, in order, each with its client timeout.\<close>

fun requests :: "event list \<Rightarrow> (Request \<times> int) list" where
  "requests [] = []"
| "requests (ClientDo req timeout # tr) = (req, timeout) # requests tr"
| "requests (_ # tr) = requests tr"

text \<open>The stage of the run that an outside call belongs to; a log line belongs to none.\<close>

datatype stage = Discovering | Probing | LookingUp | Reloading

fun stage_of :: "event \<Rightarrow> stage option" where
  "stage_of (PodsList _ _) = Some Discovering"
| "stage_of (TlsDial _ _) = Some Probing"
| "stage_of (CertificatesGet _) = Some LookingUp"
| "stage_of (ClientDo _ _) = Some Reloading"
| "stage_of (Log _) = None"

definition stages :: "event list \<Rightarrow> stage list" where
  "stages tr = List.map_filter stage_of tr"

text \<open>The reload request that \<open>reloadFluentdConfig\<close> builds for an address.\<close>

definition reload_request :: "string \<Rightarrow> Request \<times> int" where
  "reload_request ip =
     (\<lparr>Method = ''GET'', URL = ''http://'' @ ip @ '':24444/api/config.gracefulReload''\<rparr>,
      5 * Second)"

subsection \<open>The two halves of \<open>main\<close>\<close>

text \<open>
  \<open>main\<close> up to and including the lookup (client set-up, \<open>getConfig\<close>, \<open>getFluentdIPs\<close>,
  \<open>checkCert\<close>, \<open>getCRD\<close>): what the comparison is given, or the panic that ended the run.
\<close>

definition until_Reconciling :: "world \<Rightarrow> (error + string list \<times> Time \<times> Certificate) \<times> event list" where
  "until_Reconciling w =
     (case rest_InClusterConfig w of
        Some err \<Rightarrow> (Inl (ClientSetup err), [])
      | None \<Rightarrow>
     (case kubernetes_NewForConfig w of
        Some err \<Rightarrow> (Inl (ClientSetup err), [])
      | None \<Rightarrow>
     (case getConfig w of
        Inl e \<Rightarrow> (Inl e, [])
      | Inr config \<Rightarrow>
     (let a = \<lparr>app_namespace = config_namespace config, app_certName = config_certName config\<rparr>
      in case getFluentdIPs w a [] of
        (Inl e, tr1) \<Rightarrow> (Inl e, tr1)
      | (Inr fluentdIPs, tr1) \<Rightarrow>
     (case checkCert w (config_serviceURL config) tr1 of
        (Inl e, tr2) \<Rightarrow> (Inl e, tr2)
      | (Inr expiry, tr2) \<Rightarrow>
     (case getCRD w a tr2 of
        (Inl e, tr3) \<Rightarrow> (Inl e, tr3)
      | (Inr certificate, tr3) \<Rightarrow> (Inr (fluentdIPs, expiry, certificate), tr3)))))))"

text \<open>The rest of \<open>main\<close>: the comparison and, when it fails, the reload of every address.\<close>

definition reconcile :: "world \<Rightarrow> string list \<Rightarrow> Time \<Rightarrow> Certificate \<Rightarrow> event list \<Rightarrow> (error + unit) \<times> event list" where
  "reconcile w fluentdIPs expiry certificate tr3 =
     (let tr4 = tr3 @ [Log (LogWillExpire expiry)];
          t = NewTime expiry
      in if metav1_Equal (cert_Status_NotAfter certificate) (Some t)
         then (Inr (),
               tr4 @ [Log (LogWillBeRenewed (cert_Status_RenewalTime certificate)),
                      Log LogValid])
         else reloadFluentdConfig w fluentdIPs
                (tr4 @ [Log LogNotValid,
                        Log (LogShouldExpire (cert_Status_NotAfter certificate) expiry)]))"

text \<open>What the run has logged when the reload begins.\<close>

definition reload_start :: "Time \<Rightarrow> Certificate \<Rightarrow> event list \<Rightarrow> event list" where
  "reload_start expiry certificate tr3 =
     tr3 @ [Log (LogWillExpire expiry), Log LogNotValid,
            Log (LogShouldExpire (cert_Status_NotAfter certificate) expiry)]"

subsection \<open>Conditions used in the statements\<close>

text \<open>Client set-up and \<open>getConfig\<close> succeeded with this configuration.\<close>

definition started :: "world \<Rightarrow> config \<Rightarrow> bool" where
  "started w config \<longleftrightarrow>
     rest_InClusterConfig w = None \<and> kubernetes_NewForConfig w = None \<and> getConfig w = Inr config"

text \<open>The \<open>app\<close> value that \<open>main\<close> builds from the configuration.\<close>

definition app_of :: "config \<Rightarrow> app" where
  "app_of config =
     \<lparr>app_namespace = config_namespace config, app_certName = config_certName config\<rparr>"

text \<open>
  The failure condition of a reload request as the specification words it: the request
  itself errors (it cannot be created or cannot be sent), or the response status is at
  least 400.
\<close>

definition request_errors_or_status_400 :: "world \<Rightarrow> string \<Rightarrow> event list \<Rightarrow> bool" where
  "request_errors_or_status_400 w ip tr =
     (let url = ''http://'' @ ip @ '':24444/api/config.gracefulReload''
      in case http_NewRequest_err w ''GET'' url of
           Some err \<Rightarrow> True
         | None \<Rightarrow>
             (case client_Do w (tr @ [Log (LogReloading ip)]) (5 * Second)
                     \<lparr>Method = ''GET'', URL = url\<rparr> of
                Inl err \<Rightarrow> True
              | Inr resp \<Rightarrow> StatusCode resp \<ge> 400))"

text \<open>The response arrived with a status below 400 and its body could not be read.\<close>

definition body_read_fails :: "world \<Rightarrow> string \<Rightarrow> event list \<Rightarrow> bool" where
  "body_read_fails w ip tr =
     (let url = ''http://'' @ ip @ '':24444/api/config.gracefulReload''
      in case http_NewRequest_err w ''GET'' url of
           Some err \<Rightarrow> False
         | None \<Rightarrow>
             (case client_Do w (tr @ [Log (LogReloading ip)]) (5 * Second)
                     \<lparr>Method = ''GET'', URL = url\<rparr> of
                Inl err \<Rightarrow> False
              | Inr resp \<Rightarrow> StatusCode resp < 400 \<and> isl (Body resp)))"

text \<open>
  The attempt for an address, begun after the effects \<open>tr\<close>, fails: the request cannot
  be created or sent, or the response status is at least 400, or the body cannot be read.
  This reads the world's answers only, not the program.
\<close>

definition attempt_fails :: "world \<Rightarrow> string \<Rightarrow> event list \<Rightarrow> bool" where
  "attempt_fails w ip tr \<longleftrightarrow> request_errors_or_status_400 w ip tr \<or> body_read_fails w ip tr"

text \<open>
  Case-insensitive equality as the specification means it, written without reference to
  \<open>strings.EqualFold\<close>: two ASCII strings are equal once every upper-case letter
  \<open>A\<close>\<dots>\<open>Z\<close> is replaced by its lower-case form.
\<close>

definition ascii_lower :: "char \<Rightarrow> char" where
  "ascii_lower c =
     (if 65 \<le> (of_char c :: nat) \<and> (of_char c :: nat) \<le> 90
      then char_of ((of_char c :: nat) + 32) else c)"

definition ascii :: "string \<Rightarrow> bool" where
  "ascii s \<longleftrightarrow> list_all (\<lambda>c. (of_char c :: nat) < 128) s"

definition equal_ignoring_case :: "string \<Rightarrow> string \<Rightarrow> bool" where
  "equal_ignoring_case s t \<longleftrightarrow> map ascii_lower s = map ascii_lower t"

subsection \<open>A concrete cluster\<close>

text \<open>
  The deployment of the repository's manifest (namespace \<open>logging\<close>, certificate
  \<open>fluentd-tls\<close>, host \<open>logging.donchev.is\<close>), two statefulset pods and a stray one, a
  record that expires on 2024-03-01 and a server that already presents the renewed
  certificate, expiring on 2024-06-01 (both 00:00:00 UTC).
\<close>

definition notAfter_2024_03_01 :: Time where
  "notAfter_2024_03_01 = \<lparr>sec = 63844848000, nsec = 0, loc = ''UTC''\<rparr>"

definition notAfter_2024_06_01 :: Time where
  "notAfter_2024_06_01 = \<lparr>sec = 63852796800, nsec = 0, loc = ''UTC''\<rparr>"

definition example_pods :: "Pod list" where
  "example_pods =
     [\<lparr>pod_Name = ''fluentd-0'',
       pod_Labels = [''app'' \<mapsto> ''logging'', ''statefulset.kubernetes.io/pod-name'' \<mapsto> ''fluentd-0''],
       pod_Status_PodIP = ''10.0.0.1''\<rparr>,
      \<lparr>pod_Name = ''fluentd-1'',
       pod_Labels = [''app'' \<mapsto> ''logging'', ''statefulset.kubernetes.io/pod-name'' \<mapsto> ''fluentd-1''],
       pod_Status_PodIP = ''10.0.0.2''\<rparr>,
      \<lparr>pod_Name = ''debug'',
       pod_Labels = [''app'' \<mapsto> ''logging''],
       pod_Status_PodIP = ''10.0.0.9''\<rparr>]"

definition other_tls :: Certificate where
  "other_tls = \<lparr>cert_Name = ''other-tls'', cert_Status_NotAfter = None,
                 cert_Status_RenewalTime = None\<rparr>"

definition fluentd_tls :: Certificate where
  "fluentd_tls = \<lparr>cert_Name = ''FLUENTD-TLS'', cert_Status_NotAfter = Some notAfter_2024_03_01,
                   cert_Status_RenewalTime = None\<rparr>"

definition example_leaf :: x509_Certificate where
  "example_leaf = \<lparr>NotAfter = notAfter_2024_06_01, Issuer = ''CN=R3'',
                    x509_VerifyHostname = (\<lambda>host. None)\<rparr>"

definition example_world :: world where
  "example_world =
     \<lparr>rest_InClusterConfig = None,
      kubernetes_NewForConfig = None,
      os_LookupEnv = [''FLUENTD_NAMESPACE'' \<mapsto> ''logging'',
                      ''FLUENTD_SERVICE_URL'' \<mapsto> ''logging.donchev.is'',
                      ''FLUENTD_CERT_NAME'' \<mapsto> ''fluentd-tls''],
      Pods_List = (\<lambda>namespace selector. Inr example_pods),
      RESTClient_Get = (\<lambda>uri. Inr [other_tls, fluentd_tls]),
      net_Dial = (\<lambda>network addr. None),
      tls_Handshake = (\<lambda>addr. Inr \<lparr>PeerCertificates = [example_leaf]\<rparr>),
      http_NewRequest_err = (\<lambda>method url. None),
      client_Do = (\<lambda>tr timeout req.
                     Inr \<lparr>StatusCode = 200, Status = ''200 OK'', Body = Inr ''ok''\<rparr>),
      EqualFold_hasUnicode = (\<lambda>s t. False)\<rparr>"

definition example_app :: app where
  "example_app = \<lparr>app_namespace = ''logging'', app_certName = ''fluentd-tls''\<rparr>"

text \<open>The configuration of the example cluster.\<close>

definition example_config :: config where
  "example_config =
     \<lparr>config_serviceURL = ''logging.donchev.is'', config_certName = ''fluentd-tls'',
      config_namespace = ''logging''\<rparr>"

text \<open>What the example cluster's run has done when it reaches the comparison.\<close>

definition example_tr3 :: "Time \<Rightarrow> event list" where
  "example_tr3 expiry =
     [PodsList ''logging'' ''app=logging'',
      Log (LogPodSkipped ''debug''),
      TlsDial ''tcp'' ''logging.donchev.is:443'',
      Log (LogIssuerExpiry ''CN=R3'' expiry),
      CertificatesGet ''/apis/cert-manager.io/v1/namespaces/logging/certificates'',
      Log (LogNotFluentdCertificate ''other-tls'')]"

subsection \<open>Variations of the cluster\<close>

text \<open>The example cluster with a server that still presents the recorded certificate.\<close>

definition unchanged_world :: world where
  "unchanged_world =
     example_world\<lparr>tls_Handshake := (\<lambda>addr. Inr \<lparr>PeerCertificates =
        [example_leaf\<lparr>NotAfter := notAfter_2024_03_01\<lparr>loc := ''Local''\<rparr>\<rparr>]\<rparr>)\<rparr>"

text \<open>The example cluster with a server certificate that expires half a second after the record.\<close>

definition subsecond_world :: world where
  "subsecond_world =
     example_world\<lparr>tls_Handshake := (\<lambda>addr. Inr \<lparr>PeerCertificates =
        [example_leaf\<lparr>NotAfter := notAfter_2024_03_01\<lparr>nsec := 500000000\<rparr>\<rparr>]\<rparr>)\<rparr>"

text \<open>The example cluster with a certificate record that has no expiry yet.\<close>

definition unissued_world :: world where
  "unissued_world =
     example_world\<lparr>RESTClient_Get := (\<lambda>uri.
        Inr [other_tls, fluentd_tls\<lparr>cert_Status_NotAfter := None\<rparr>])\<rparr>"

text \<open>The example cluster with no statefulset pod.\<close>

definition no_replica_world :: world where
  "no_replica_world =
     example_world\<lparr>Pods_List := (\<lambda>namespace selector.
        Inr [\<lparr>pod_Name = ''debug'', pod_Labels = [''app'' \<mapsto> ''logging''],
              pod_Status_PodIP = ''10.0.0.9''\<rparr>])\<rparr>"

text \<open>The example cluster with the replica at 10.0.0.2 answering 503.\<close>

definition unavailable_world :: world where
  "unavailable_world =
     example_world\<lparr>client_Do := (\<lambda>tr timeout req.
        if URL req = ''http://10.0.0.2:24444/api/config.gracefulReload''
        then Inr \<lparr>StatusCode = 503, Status = ''503 Service Unavailable'', Body = Inr []\<rparr>
        else Inr \<lparr>StatusCode = 200, Status = ''200 OK'', Body = Inr ''ok''\<rparr>)\<rparr>"

text \<open>The example cluster with replicas that answer 200 and then break the connection.\<close>

definition read_error_world :: world where
  "read_error_world =
     example_world\<lparr>client_Do := (\<lambda>tr timeout req.
        Inr \<lparr>StatusCode = 200, Status = ''200 OK'', Body = Inl ''unexpected EOF''\<rparr>)\<rparr>"

text \<open>The example cluster started with an empty environment.\<close>

definition no_env_world :: world where
  "no_env_world = example_world\<lparr>os_LookupEnv := Map.empty\<rparr>"

text \<open>The example cluster refusing to list pods.\<close>

definition forbidden_pods_world :: world where
  "forbidden_pods_world = example_world\<lparr>Pods_List := (\<lambda>namespace selector. Inl ''forbidden'')\<rparr>"

text \<open>The example cluster with a server that refuses the connection.\<close>

definition refused_world :: world where
  "refused_world = example_world\<lparr>net_Dial := (\<lambda>network addr. Some ''connection refused'')\<rparr>"

text \<open>The example cluster refusing to list certificates.\<close>

definition forbidden_certificates_world :: world where
  "forbidden_certificates_world = example_world\<lparr>RESTClient_Get := (\<lambda>uri. Inl ''forbidden'')\<rparr>"

text \<open>The cluster without a recorded expiry, the replica at 10.0.0.1 answering 503.\<close>

definition unissued_unavailable_world :: world where
  "unissued_unavailable_world =
     unissued_world\<lparr>client_Do := (\<lambda>tr timeout req.
        if URL req = ''http://10.0.0.1:24444/api/config.gracefulReload''
        then Inr \<lparr>StatusCode = 503, Status = ''503 Service Unavailable'', Body = Inr []\<rparr>
        else Inr \<lparr>StatusCode = 200, Status = ''200 OK'', Body = Inr ''ok''\<rparr>)\<rparr>"

text \<open>The effects of one successful reload request to an address of the example cluster.\<close>

definition example_served :: "string \<Rightarrow> event list" where
  "example_served ip =
     [Log (LogReloading ip),
      ClientDo \<lparr>Method = ''GET'', URL = ''http://'' @ ip @ '':24444/api/config.gracefulReload''\<rparr>
        (5 * Second),
      Log (LogResponse ''ok'')]"

section \<open>Replica discovery\<close>

lemma getFluentdIPs_loop_eq:
  "getFluentdIPs_loop pods fluentdIPs tr =
     (fluentdIPs @ map pod_Status_PodIP
        (filter (\<lambda>pod. pod_Labels pod ''statefulset.kubernetes.io/pod-name'' \<noteq> None) pods),
      tr @ map (\<lambda>pod. Log (LogPodSkipped (pod_Name pod)))
        (filter (\<lambda>pod. pod_Labels pod ''statefulset.kubernetes.io/pod-name'' = None) pods))"
  by (induction pods arbitrary: fluentdIPs tr) (auto split: option.splits)

text \<open>
  Claim C4. For every list of pods that the API returns, \<open>getFluentdIPs\<close> returns the pod
  IPs of exactly the pods that carry the label \<open>statefulset.kubernetes.io/pod-name\<close>, in
  list order: a pod without the label contributes nothing (it is logged as skipped, and is
  no error), and every pod with the label contributes its IP.
\<close>

theorem getFluentdIPs_filter_exact:
  assumes "Pods_List w (app_namespace a) (''app='' @ app_namespace a) = Inr pods"
  shows "getFluentdIPs w a tr =
           (Inr (map pod_Status_PodIP
                  (filter (\<lambda>pod. pod_Labels pod ''statefulset.kubernetes.io/pod-name'' \<noteq> None) pods)),
            tr @ [PodsList (app_namespace a) (''app='' @ app_namespace a)]
               @ map (\<lambda>pod. Log (LogPodSkipped (pod_Name pod)))
                  (filter (\<lambda>pod. pod_Labels pod ''statefulset.kubernetes.io/pod-name'' = None) pods))"
  using assms by (simp add: getFluentdIPs_def Let_def getFluentdIPs_loop_eq)

theorem getFluentdIPs_filter_exact_witness:
  "Pods_List example_world (app_namespace example_app) (''app='' @ app_namespace example_app) = Inr example_pods
   \<and> getFluentdIPs example_world example_app [] =
       (Inr [''10.0.0.1'', ''10.0.0.2''],
        [PodsList ''logging'' ''app=logging'', Log (LogPodSkipped ''debug'')])"
  using getFluentdIPs_filter_exact [of example_world example_app example_pods "[]"]
  by (simp add: example_world_def example_app_def example_pods_def)

section \<open>Authoritative lookup\<close>

lemma getCRD_loop_none:
  "filter (\<lambda>cert. EqualFold w (cert_Name cert) certName) certs = [] \<Longrightarrow>
   fst (getCRD_loop w certName certs tr) = Inl FailedToFindCertificate"
  by (induction certs arbitrary: tr) (auto split: if_splits)

lemma getCRD_loop_first:
  "filter (\<lambda>cert. EqualFold w (cert_Name cert) certName) certs = c # cs \<Longrightarrow>
   fst (getCRD_loop w certName certs tr) = Inr c"
  by (induction certs arbitrary: tr) (auto split: if_splits)

lemma filter_single_mset:
  assumes "mset ys = mset xs" and "filter P xs = [c]"
  shows "filter P ys = [c]"
proof -
  have "mset (filter P ys) = mset (filter P xs)"
    using assms(1) by simp
  then have "mset (filter P ys) = {#c#}"
    using assms(2) by simp
  then show ?thesis by (simp only: mset_single_iff)
qed

lemma filter_none_mset:
  assumes "mset ys = mset xs" and "filter P xs = []"
  shows "filter P ys = []"
proof -
  have "mset (filter P ys) = mset (filter P xs)"
    using assms(1) by simp
  then show ?thesis using assms(2) by simp
qed

lemma ascii_lower_code:
  "(of_char (ascii_lower c) :: nat) =
     (if 65 \<le> (of_char c :: nat) \<and> (of_char c :: nat) \<le> 90 then of_char c + 32 else of_char c)"
  by (simp add: ascii_lower_def)

lemma ascii_lower_eq_iff:
  "ascii_lower x = ascii_lower y \<longleftrightarrow>
     y = x \<or> (65 \<le> min (of_char x :: nat) (of_char y)
              \<and> min (of_char x :: nat) (of_char y) \<le> 90
              \<and> max (of_char x :: nat) (of_char y) = min (of_char x) (of_char y) + 32)"
proof -
  have "ascii_lower x = ascii_lower y \<longleftrightarrow>
      (of_char (ascii_lower x) :: nat) = of_char (ascii_lower y)"
    by simp
  also have "\<dots> \<longleftrightarrow> (of_char y :: nat) = of_char x
      \<or> (65 \<le> min (of_char x :: nat) (of_char y)
          \<and> min (of_char x :: nat) (of_char y) \<le> 90
          \<and> max (of_char x :: nat) (of_char y) = min (of_char x) (of_char y) + 32)"
    unfolding ascii_lower_code by (auto simp: min_def max_def)
  finally show ?thesis by simp
qed

lemma EqualFold_ascii:
  "ascii s \<Longrightarrow> ascii t \<Longrightarrow> EqualFold w s t \<longleftrightarrow> equal_ignoring_case s t"
proof (induction w s t rule: EqualFold.induct)
  case (1 w sr s tr t)
  then show ?case
    by (simp add: ascii_def equal_ignoring_case_def ascii_lower_eq_iff) blast
qed (auto simp: equal_ignoring_case_def)

lemma filter_EqualFold_ascii:
  assumes "ascii certName" and "list_all (\<lambda>cert. ascii (cert_Name cert)) certs"
  shows "filter (\<lambda>cert. EqualFold w (cert_Name cert) certName) certs
       = filter (\<lambda>cert. equal_ignoring_case (cert_Name cert) certName) certs"
  using assms by (intro filter_cong refl) (simp add: list_all_iff EqualFold_ascii)

text \<open>
  Claim C3. Let the API return the certificates \<open>certs\<close> in any order (\<open>items\<close> is a
  rearrangement of \<open>certs\<close>). When exactly one certificate of \<open>certs\<close> has a name that
  \<open>strings.EqualFold\<close> equates with the target, \<open>getCRD\<close> returns that certificate; when
  none has, it returns the not-found error. The order of the list does not matter.
  On ASCII strings, which the names of Kubernetes objects are, \<open>strings.EqualFold\<close> is
  equality up to the case of the letters \<open>A\<close>\<dots>\<open>Z\<close>; so for an ASCII target and ASCII
  names the lookup returns the one certificate whose name equals the target up to letter
  case, and the not-found error when there is none. Beyond ASCII the match is the
  library's Unicode case folding, which is not part of this program.
\<close>

theorem getCRD_unique_match:
  assumes "RESTClient_Get w (''/apis/cert-manager.io/v1/namespaces/'' @ app_namespace a @ ''/certificates'') = Inr items"
    and "mset items = mset certs"
  shows "(filter (\<lambda>cert. EqualFold w (cert_Name cert) (app_certName a)) certs = [c]
            \<longrightarrow> fst (getCRD w a tr) = Inr c)
       \<and> (filter (\<lambda>cert. EqualFold w (cert_Name cert) (app_certName a)) certs = []
            \<longrightarrow> (\<exists>e. fst (getCRD w a tr) = Inl e \<and> kind e = NotFoundError))
       \<and> (\<forall>s t. ascii s \<and> ascii t \<longrightarrow> (EqualFold w s t \<longleftrightarrow> equal_ignoring_case s t))
       \<and> (ascii (app_certName a) \<and> list_all (\<lambda>cert. ascii (cert_Name cert)) certs \<longrightarrow>
            (filter (\<lambda>cert. equal_ignoring_case (cert_Name cert) (app_certName a)) certs = [c]
               \<longrightarrow> fst (getCRD w a tr) = Inr c)
          \<and> (filter (\<lambda>cert. equal_ignoring_case (cert_Name cert) (app_certName a)) certs = []
               \<longrightarrow> (\<exists>e. fst (getCRD w a tr) = Inl e \<and> kind e = NotFoundError)))"
proof -
  let ?P = "\<lambda>cert. EqualFold w (cert_Name cert) (app_certName a)"
  let ?Q = "\<lambda>cert. equal_ignoring_case (cert_Name cert) (app_certName a)"
  have run: "fst (getCRD w a tr) = fst (getCRD_loop w (app_certName a) items
      (tr @ [CertificatesGet (''/apis/cert-manager.io/v1/namespaces/'' @ app_namespace a @ ''/certificates'')]))"
    using assms(1) by (simp add: getCRD_def Let_def)
  have one: "fst (getCRD w a tr) = Inr c" if "filter ?P certs = [c]"
    using filter_single_mset [OF assms(2) that] run by (simp add: getCRD_loop_first)
  have none: "fst (getCRD w a tr) = Inl FailedToFindCertificate" if "filter ?P certs = []"
    using filter_none_mset [OF assms(2) that] run by (simp add: getCRD_loop_none)
  have fold: "\<forall>s t. ascii s \<and> ascii t \<longrightarrow> (EqualFold w s t \<longleftrightarrow> equal_ignoring_case s t)"
    by (simp add: EqualFold_ascii)
  have same: "filter ?P certs = filter ?Q certs"
    if "ascii (app_certName a)" and "list_all (\<lambda>cert. ascii (cert_Name cert)) certs"
    using that by (rule filter_EqualFold_ascii)
  have one': "fst (getCRD w a tr) = Inr c"
    if "ascii (app_certName a)" and "list_all (\<lambda>cert. ascii (cert_Name cert)) certs"
      and "filter ?Q certs = [c]"
    using one same [OF that(1,2)] that(3) by simp
  have none': "fst (getCRD w a tr) = Inl FailedToFindCertificate"
    if "ascii (app_certName a)" and "list_all (\<lambda>cert. ascii (cert_Name cert)) certs"
      and "filter ?Q certs = []"
    using none same [OF that(1,2)] that(3) by simp
  show ?thesis
    using one none fold one' none' by auto
qed

theorem getCRD_unique_match_witness:
  "RESTClient_Get example_world
     (''/apis/cert-manager.io/v1/namespaces/'' @ app_namespace example_app @ ''/certificates'')
     = Inr [other_tls, fluentd_tls]
   \<and> mset [other_tls, fluentd_tls] = mset [fluentd_tls, other_tls]
   \<and> ascii ''fluentd-tls'' \<and> ascii ''fluentd''
   \<and> list_all (\<lambda>cert. ascii (cert_Name cert)) [fluentd_tls, other_tls]
   \<and> equal_ignoring_case ''FLUENTD-TLS'' ''fluentd-tls''
   \<and> EqualFold example_world ''FLUENTD-TLS'' ''fluentd-tls''
   \<and> filter (\<lambda>cert. EqualFold example_world (cert_Name cert) ''fluentd-tls'')
         [fluentd_tls, other_tls] = [fluentd_tls]
   \<and> filter (\<lambda>cert. equal_ignoring_case (cert_Name cert) ''fluentd-tls'')
         [fluentd_tls, other_tls] = [fluentd_tls]
   \<and> fst (getCRD example_world example_app []) = Inr fluentd_tls
   \<and> filter (\<lambda>cert. EqualFold example_world (cert_Name cert) ''fluentd'')
         [fluentd_tls, other_tls] = []
   \<and> filter (\<lambda>cert. equal_ignoring_case (cert_Name cert) ''fluentd'')
         [fluentd_tls, other_tls] = []
   \<and> (\<exists>e. fst (getCRD example_world (example_app\<lparr>app_certName := ''fluentd''\<rparr>) []) = Inl e
          \<and> kind e = NotFoundError)"
proof -
  have get: "RESTClient_Get example_world
      (''/apis/cert-manager.io/v1/namespaces/'' @ app_namespace example_app @ ''/certificates'')
      = Inr [other_tls, fluentd_tls]"
    by (simp add: example_world_def)
  have get': "RESTClient_Get example_world
      (''/apis/cert-manager.io/v1/namespaces/''
         @ app_namespace (example_app\<lparr>app_certName := ''fluentd''\<rparr>) @ ''/certificates'')
      = Inr [other_tls, fluentd_tls]"
    by (simp add: example_world_def)
  have perm: "mset [other_tls, fluentd_tls] = mset [fluentd_tls, other_tls]"
    by simp
  have a1: "ascii ''fluentd-tls''" and a2: "ascii ''fluentd''"
    by (simp_all add: ascii_def)
  have a3: "list_all (\<lambda>cert. ascii (cert_Name cert)) [fluentd_tls, other_tls]"
    by (simp add: ascii_def fluentd_tls_def other_tls_def)
  have a1': "ascii (app_certName example_app)"
    using a1 by (simp add: example_app_def)
  have a2': "ascii (app_certName (example_app\<lparr>app_certName := ''fluentd''\<rparr>))"
    using a2 by simp
  have eq: "equal_ignoring_case ''FLUENTD-TLS'' ''fluentd-tls''"
    by (simp add: equal_ignoring_case_def ascii_lower_eq_iff)
  have one: "filter (\<lambda>cert. equal_ignoring_case (cert_Name cert) ''fluentd-tls'')
      [fluentd_tls, other_tls] = [fluentd_tls]"
    by (simp add: fluentd_tls_def other_tls_def equal_ignoring_case_def ascii_lower_eq_iff)
  have none: "filter (\<lambda>cert. equal_ignoring_case (cert_Name cert) ''fluentd'')
      [fluentd_tls, other_tls] = []"
    by (simp add: fluentd_tls_def other_tls_def equal_ignoring_case_def)
  have one_code: "filter (\<lambda>cert. EqualFold example_world (cert_Name cert) ''fluentd-tls'')
      [fluentd_tls, other_tls] = [fluentd_tls]"
    by (simp add: fluentd_tls_def other_tls_def)
  have none_code: "filter (\<lambda>cert. EqualFold example_world (cert_Name cert) ''fluentd'')
      [fluentd_tls, other_tls] = []"
    by (simp add: fluentd_tls_def other_tls_def)
  note found = getCRD_unique_match [OF get perm, of fluentd_tls "[]"]
  note missing = getCRD_unique_match [OF get' perm, of fluentd_tls "[]"]
  have fold: "EqualFold example_world ''FLUENTD-TLS'' ''fluentd-tls''"
    using found [THEN conjunct2, THEN conjunct2, THEN conjunct1, rule_format,
        of "''FLUENTD-TLS''" "''fluentd-tls''"] a1 eq
    by (simp add: ascii_def)
  have r1: "fst (getCRD example_world example_app []) = Inr fluentd_tls"
    using found [THEN conjunct2, THEN conjunct2, THEN conjunct2] a1' a3 one
    by (simp add: example_app_def)
  have r2: "\<exists>e. fst (getCRD example_world (example_app\<lparr>app_certName := ''fluentd''\<rparr>) []) = Inl e
      \<and> kind e = NotFoundError"
    using missing [THEN conjunct2, THEN conjunct2, THEN conjunct2] a2' a3 none
    by simp
  show ?thesis
    using get perm a1 a2 a3 eq fold one_code one r1 none_code none r2 by blast
qed

section \<open>Live probe\<close>

text \<open>
  Claim C7. \<open>checkCert\<close> returns a probe error exactly when the TCP connection to port 443
  of the host cannot be established, or the TLS handshake fails, or the connection does
  not verify the host name; it returns no other error. When none of these happens the
  server has presented a leaf certificate and \<open>checkCert\<close> returns its \<open>NotAfter\<close>.
\<close>

theorem checkCert_ProbeError:
  "((\<exists>e. fst (checkCert w serviceURL tr) = Inl e \<and> kind e = ProbeError) \<longleftrightarrow>
      (net_Dial w ''tcp'' (serviceURL @ '':443'') \<noteq> None
       \<or> (net_Dial w ''tcp'' (serviceURL @ '':443'') = None
            \<and> isl (tls_Handshake w (serviceURL @ '':443'')))
       \<or> (\<exists>conn. tls_Dial w ''tcp'' (serviceURL @ '':443'') = Inr conn
            \<and> Conn_VerifyHostname conn serviceURL \<noteq> None)))
   \<and> (\<forall>e. fst (checkCert w serviceURL tr) = Inl e \<longrightarrow> kind e = ProbeError)
   \<and> (\<forall>conn. tls_Dial w ''tcp'' (serviceURL @ '':443'') = Inr conn
          \<and> Conn_VerifyHostname conn serviceURL = None
        \<longrightarrow> (\<exists>leaf rest. PeerCertificates conn = leaf # rest
               \<and> fst (checkCert w serviceURL tr) = Inr (NotAfter leaf)))"
  by (auto simp: checkCert_def tls_Dial_def Conn_VerifyHostname_def Let_def
        split: option.splits sum.splits list.splits)

theorem checkCert_ProbeError_witness:
  "fst (checkCert example_world ''logging.donchev.is'' []) = Inr notAfter_2024_06_01
   \<and> (\<exists>e. fst (checkCert (example_world\<lparr>net_Dial := (\<lambda>network addr. Some ''connection refused'')\<rparr>)
                ''logging.donchev.is'' []) = Inl e \<and> kind e = ProbeError)
   \<and> (\<exists>e. fst (checkCert (example_world\<lparr>tls_Handshake := (\<lambda>addr. Inl ''handshake failure'')\<rparr>)
                ''logging.donchev.is'' []) = Inl e \<and> kind e = ProbeError)
   \<and> (\<exists>e. fst (checkCert
                (example_world\<lparr>tls_Handshake := (\<lambda>addr. Inr \<lparr>PeerCertificates =
                   [example_leaf\<lparr>x509_VerifyHostname := (\<lambda>host. Some ''certificate is not valid for host'')\<rparr>]\<rparr>)\<rparr>)
                ''logging.donchev.is'' []) = Inl e \<and> kind e = ProbeError)"
  using
    checkCert_ProbeError [of example_world "''logging.donchev.is''" "[]"]
    checkCert_ProbeError [of "example_world\<lparr>net_Dial := (\<lambda>network addr. Some ''connection refused'')\<rparr>"
      "''logging.donchev.is''" "[]"]
    checkCert_ProbeError [of "example_world\<lparr>tls_Handshake := (\<lambda>addr. Inl ''handshake failure'')\<rparr>"
      "''logging.donchev.is''" "[]"]
    checkCert_ProbeError [of "example_world\<lparr>tls_Handshake := (\<lambda>addr. Inr \<lparr>PeerCertificates =
                   [example_leaf\<lparr>x509_VerifyHostname := (\<lambda>host. Some ''certificate is not valid for host'')\<rparr>]\<rparr>)\<rparr>"
      "''logging.donchev.is''" "[]"]
  by (simp add: example_world_def example_leaf_def tls_Dial_def Conn_VerifyHostname_def)

section \<open>Reload\<close>

lemma requests_append [simp]: "requests (tr @ tr') = requests tr @ requests tr'"
  by (induction tr rule: requests.induct) simp_all

lemma reloadFluentdConfig_body_requests:
  "requests (snd (reloadFluentdConfig_body w ip tr)) =
     requests tr @ (if http_NewRequest_err w ''GET'' (''http://'' @ ip @ '':24444/api/config.gracefulReload'') = None
                    then [reload_request ip] else [])"
  by (simp add: reloadFluentdConfig_body_def reload_request_def Let_def
        split: option.splits sum.splits)

lemma reloadFluentdConfig_body_ok:
  "reloadFluentdConfig_body w ip tr = (Inr u, tr') \<Longrightarrow>
   requests tr' = requests tr @ [reload_request ip]"
  by (auto simp: reloadFluentdConfig_body_def reload_request_def Let_def
        split: option.splits sum.splits if_splits)

lemma reloadFluentdConfig_body_error:
  "reloadFluentdConfig_body w ip tr = (Inl e, tr') \<Longrightarrow> kind e = ReloadError"
  by (auto simp: reloadFluentdConfig_body_def Let_def
        split: option.splits sum.splits if_splits)

lemma reloadFluentdConfig_ok:
  "reloadFluentdConfig w ips tr = (Inr u, tr') \<Longrightarrow>
   requests tr' = requests tr @ map reload_request ips"
proof (induction ips arbitrary: tr)
  case Nil
  then show ?case by simp
next
  case (Cons ip ips)
  obtain r tr0 where body: "reloadFluentdConfig_body w ip tr = (r, tr0)"
    by (cases "reloadFluentdConfig_body w ip tr")
  show ?case
  proof (cases r)
    case (Inl e)
    with Cons.prems body show ?thesis by simp
  next
    case (Inr v)
    with Cons.prems body have "reloadFluentdConfig w ips tr0 = (Inr u, tr')" by simp
    then have "requests tr' = requests tr0 @ map reload_request ips"
      by (rule Cons.IH)
    moreover have "requests tr0 = requests tr @ [reload_request ip]"
      using body Inr by (simp add: reloadFluentdConfig_body_ok)
    ultimately show ?thesis by simp
  qed
qed

lemma reloadFluentdConfig_fails_at:
  "reloadFluentdConfig w ips tr = (Inl e, tr') \<Longrightarrow>
   \<exists>k tr_k. k < length ips
     \<and> requests tr_k = requests tr @ map reload_request (take k ips)
     \<and> reloadFluentdConfig_body w (ips ! k) tr_k = (Inl e, tr')"
proof (induction ips arbitrary: tr)
  case Nil
  then show ?case by simp
next
  case (Cons ip ips)
  obtain r tr0 where body: "reloadFluentdConfig_body w ip tr = (r, tr0)"
    by (cases "reloadFluentdConfig_body w ip tr")
  show ?case
  proof (cases r)
    case (Inl e0)
    with Cons.prems body have "reloadFluentdConfig_body w ((ip # ips) ! 0) tr = (Inl e, tr')"
      by simp
    then show ?thesis by (intro exI [of _ 0] exI [of _ tr]) simp
  next
    case (Inr v)
    with Cons.prems body have "reloadFluentdConfig w ips tr0 = (Inl e, tr')" by simp
    then obtain k tr_k where k: "k < length ips"
      and before: "requests tr_k = requests tr0 @ map reload_request (take k ips)"
      and fails: "reloadFluentdConfig_body w (ips ! k) tr_k = (Inl e, tr')"
      using Cons.IH by blast
    have "requests tr0 = requests tr @ [reload_request ip]"
      using body Inr by (simp add: reloadFluentdConfig_body_ok)
    with before have "requests tr_k = requests tr @ map reload_request (take (Suc k) (ip # ips))"
      by simp
    with k fails show ?thesis
      by (intro exI [of _ "Suc k"] exI [of _ tr_k]) simp
  qed
qed

lemma reloadFluentdConfig_body_fails_iff:
  "isl (fst (reloadFluentdConfig_body w ip tr)) \<longleftrightarrow> attempt_fails w ip tr"
  by (auto simp: reloadFluentdConfig_body_def attempt_fails_def request_errors_or_status_400_def
        body_read_fails_def Let_def split: option.splits sum.splits)

lemma reloadFluentdConfig_append:
  "reloadFluentdConfig w (pre @ rest) tr =
     (case reloadFluentdConfig w pre tr of
        (Inl e, tr_k) \<Rightarrow> (Inl e, tr_k)
      | (Inr u, tr_k) \<Rightarrow> reloadFluentdConfig w rest tr_k)"
  by (induction pre arbitrary: tr) (auto split: prod.splits sum.splits)

lemma reloadFluentdConfig_fail_fast:
  assumes "reloadFluentdConfig w pre tr = (Inr u, tr_k)" and "attempt_fails w ip tr_k"
  shows "reloadFluentdConfig w (pre @ ip # post) tr = reloadFluentdConfig_body w ip tr_k"
    and "isl (fst (reloadFluentdConfig_body w ip tr_k))"
proof -
  show fails: "isl (fst (reloadFluentdConfig_body w ip tr_k))"
    using assms(2) by (simp add: reloadFluentdConfig_body_fails_iff)
  then obtain e tr' where "reloadFluentdConfig_body w ip tr_k = (Inl e, tr')"
    by (cases "reloadFluentdConfig_body w ip tr_k") (auto simp: isl_def)
  then show "reloadFluentdConfig w (pre @ ip # post) tr = reloadFluentdConfig_body w ip tr_k"
    using assms(1) by (simp add: reloadFluentdConfig_append)
qed

lemma reloadFluentdConfig_fails_split:
  "reloadFluentdConfig w ips tr = (Inl e, tr') \<Longrightarrow>
   \<exists>pre ip post tr_k. ips = pre @ ip # post
     \<and> reloadFluentdConfig w pre tr = (Inr (), tr_k)
     \<and> attempt_fails w ip tr_k
     \<and> reloadFluentdConfig_body w ip tr_k = (Inl e, tr')"
proof (induction ips arbitrary: tr)
  case Nil
  then show ?case by simp
next
  case (Cons ip ips)
  obtain r tr0 where body: "reloadFluentdConfig_body w ip tr = (r, tr0)"
    by (cases "reloadFluentdConfig_body w ip tr")
  show ?case
  proof (cases r)
    case (Inl e0)
    with Cons.prems body have b: "reloadFluentdConfig_body w ip tr = (Inl e, tr')"
      by simp
    then have "attempt_fails w ip tr"
      using reloadFluentdConfig_body_fails_iff [of w ip tr] by simp
    with b have "ip # ips = [] @ ip # ips \<and> reloadFluentdConfig w [] tr = (Inr (), tr)
        \<and> attempt_fails w ip tr \<and> reloadFluentdConfig_body w ip tr = (Inl e, tr')"
      by simp
    then show ?thesis by blast
  next
    case (Inr v)
    with Cons.prems body have "reloadFluentdConfig w ips tr0 = (Inl e, tr')" by simp
    then obtain pre ip' post tr_k where split: "ips = pre @ ip' # post"
      and pre: "reloadFluentdConfig w pre tr0 = (Inr (), tr_k)"
      and fails: "attempt_fails w ip' tr_k"
      and b: "reloadFluentdConfig_body w ip' tr_k = (Inl e, tr')"
      using Cons.IH by blast
    from body Inr pre have "reloadFluentdConfig w (ip # pre) tr = (Inr (), tr_k)"
      by simp
    with split fails b
    have "ip # ips = (ip # pre) @ ip' # post \<and> reloadFluentdConfig w (ip # pre) tr = (Inr (), tr_k)
        \<and> attempt_fails w ip' tr_k \<and> reloadFluentdConfig_body w ip' tr_k = (Inl e, tr')"
      by simp
    then show ?thesis by blast
  qed
qed

lemma reloadFluentdConfig_all_succeed:
  assumes "\<forall>pre ip post tr_k. ips = pre @ ip # post
      \<and> reloadFluentdConfig w pre tr = (Inr (), tr_k) \<longrightarrow> \<not> attempt_fails w ip tr_k"
  shows "fst (reloadFluentdConfig w ips tr) = Inr ()"
proof (cases "fst (reloadFluentdConfig w ips tr)")
  case (Inl e)
  then have "reloadFluentdConfig w ips tr = (Inl e, snd (reloadFluentdConfig w ips tr))"
    by (metis prod.collapse)
  from reloadFluentdConfig_fails_split [OF this] assms show ?thesis by blast
next
  case (Inr u)
  then show ?thesis by simp
qed

lemma reloadFluentdConfig_fail_fast_requests:
  assumes "reloadFluentdConfig w pre tr = (Inr u, tr_k)" and "attempt_fails w ip tr_k"
    and "reloadFluentdConfig w (pre @ ip # post) tr = (r, tr')"
  shows "\<exists>e. r = Inl e \<and> kind e = ReloadError"
    and "reloadFluentdConfig_body w ip tr_k = (r, tr')"
    and "requests tr' = requests tr @ map reload_request pre
       \<or> requests tr' = requests tr @ map reload_request (pre @ [ip])"
proof -
  show b: "reloadFluentdConfig_body w ip tr_k = (r, tr')"
    using reloadFluentdConfig_fail_fast(1) [OF assms(1,2)] assms(3) by simp
  have "isl r"
    using reloadFluentdConfig_fail_fast(2) [OF assms(1,2)] b by simp
  then obtain e where e: "r = Inl e"
    by (cases r) simp_all
  with b show "\<exists>e. r = Inl e \<and> kind e = ReloadError"
    by (auto dest: reloadFluentdConfig_body_error)
  have "requests tr_k = requests tr @ map reload_request pre"
    using assms(1) by (rule reloadFluentdConfig_ok)
  moreover have "requests tr' = requests tr_k \<or> requests tr' = requests tr_k @ [reload_request ip]"
    using reloadFluentdConfig_body_requests [of w ip tr_k] b by (simp split: if_splits)
  ultimately show "requests tr' = requests tr @ map reload_request pre
       \<or> requests tr' = requests tr @ map reload_request (pre @ [ip])"
    by auto
qed

lemma reloadFluentdConfig_requests_prefix:
  "\<exists>n\<le>length ips. requests (snd (reloadFluentdConfig w ips tr))
       = requests tr @ map reload_request (take n ips)"
proof (cases "fst (reloadFluentdConfig w ips tr)")
  case (Inr u)
  then have "reloadFluentdConfig w ips tr = (Inr u, snd (reloadFluentdConfig w ips tr))"
    by (metis prod.collapse)
  then have "requests (snd (reloadFluentdConfig w ips tr))
      = requests tr @ map reload_request (take (length ips) ips)"
    by (simp add: reloadFluentdConfig_ok)
  then show ?thesis by blast
next
  case (Inl e)
  then have "reloadFluentdConfig w ips tr = (Inl e, snd (reloadFluentdConfig w ips tr))"
    by (metis prod.collapse)
  then obtain k tr_k where k: "k < length ips"
    and before: "requests tr_k = requests tr @ map reload_request (take k ips)"
    and fails: "reloadFluentdConfig_body w (ips ! k) tr_k
        = (Inl e, snd (reloadFluentdConfig w ips tr))"
    using reloadFluentdConfig_fails_at by blast
  have "requests (snd (reloadFluentdConfig w ips tr)) = requests tr_k
      \<or> requests (snd (reloadFluentdConfig w ips tr)) = requests tr_k @ [reload_request (ips ! k)]"
    using reloadFluentdConfig_body_requests [of w "ips ! k" tr_k] fails
    by (simp split: if_splits)
  with before k
  have "requests (snd (reloadFluentdConfig w ips tr)) = requests tr @ map reload_request (take k ips)
      \<or> requests (snd (reloadFluentdConfig w ips tr))
          = requests tr @ map reload_request (take (Suc k) ips)"
    by (auto simp: take_Suc_conv_app_nth)
  moreover have "k \<le> length ips" and "Suc k \<le> length ips"
    using k by simp_all
  ultimately show ?thesis by blast
qed

text \<open>
  Claim C2. \<open>reloadFluentdConfig\<close> sends one GET request per address, in list order.
  When it returns without error, the requests it sent are exactly one for each address.
  When it returns an error, that is a reload error raised by the attempt for some address
  \<open>ips ! k\<close>; the run's effects end with that attempt, every address before it received
  exactly one request, the failing address at most one, and no address after it any.
  Conversely, as soon as the addresses \<open>pre\<close> have been served and the attempt for the
  next address \<open>ip\<close> fails, the whole reload returns that attempt's error and ends with
  it: the addresses \<open>post\<close> after it receive nothing. When no attempt fails, the reload
  returns without error.
\<close>

theorem reloadFluentdConfig_one_request_each:
  assumes "reloadFluentdConfig w ips tr = (r, tr')"
  shows "(r = Inr () \<longrightarrow> requests tr' = requests tr @ map reload_request ips)
       \<and> (\<forall>e. r = Inl e \<longrightarrow>
            kind e = ReloadError
          \<and> (\<exists>k tr_k. k < length ips
               \<and> requests tr_k = requests tr @ map reload_request (take k ips)
               \<and> reloadFluentdConfig_body w (ips ! k) tr_k = (Inl e, tr')
               \<and> (requests tr' = requests tr @ map reload_request (take k ips)
                  \<or> requests tr' = requests tr @ map reload_request (take (Suc k) ips))))
       \<and> (\<forall>pre ip post tr_k.
            ips = pre @ ip # post \<and> reloadFluentdConfig w pre tr = (Inr (), tr_k)
            \<and> attempt_fails w ip tr_k
            \<longrightarrow> (\<exists>e. r = Inl e \<and> kind e = ReloadError)
              \<and> reloadFluentdConfig_body w ip tr_k = (r, tr')
              \<and> (requests tr' = requests tr @ map reload_request pre
                 \<or> requests tr' = requests tr @ map reload_request (pre @ [ip])))
       \<and> ((\<forall>pre ip post tr_k.
              ips = pre @ ip # post \<and> reloadFluentdConfig w pre tr = (Inr (), tr_k)
              \<longrightarrow> \<not> attempt_fails w ip tr_k)
            \<longrightarrow> r = Inr ())"
proof (intro conjI impI allI; (elim conjE)?)
  assume "r = Inr ()"
  with assms show "requests tr' = requests tr @ map reload_request ips"
    by (simp add: reloadFluentdConfig_ok)
next
  fix e assume r: "r = Inl e"
  then obtain k tr_k where k: "k < length ips"
    and before: "requests tr_k = requests tr @ map reload_request (take k ips)"
    and fails: "reloadFluentdConfig_body w (ips ! k) tr_k = (Inl e, tr')"
    using assms reloadFluentdConfig_fails_at by blast
  from fails show "kind e = ReloadError"
    by (rule reloadFluentdConfig_body_error)
  have "requests tr' = requests tr_k \<or> requests tr' = requests tr_k @ [reload_request (ips ! k)]"
    using reloadFluentdConfig_body_requests [of w "ips ! k" tr_k] fails
    by (simp split: if_splits)
  with before k
  have "requests tr' = requests tr @ map reload_request (take k ips)
      \<or> requests tr' = requests tr @ map reload_request (take (Suc k) ips)"
    by (auto simp: take_Suc_conv_app_nth)
  with k before fails
  show "\<exists>k tr_k. k < length ips
      \<and> requests tr_k = requests tr @ map reload_request (take k ips)
      \<and> reloadFluentdConfig_body w (ips ! k) tr_k = (Inl e, tr')
      \<and> (requests tr' = requests tr @ map reload_request (take k ips)
         \<or> requests tr' = requests tr @ map reload_request (take (Suc k) ips))"
    by blast
next
  fix pre ip post tr_k
  assume split: "ips = pre @ ip # post"
    and pre: "reloadFluentdConfig w pre tr = (Inr (), tr_k)"
    and fails: "attempt_fails w ip tr_k"
  have run: "reloadFluentdConfig w (pre @ ip # post) tr = (r, tr')"
    using assms split by simp
  show "\<exists>e. r = Inl e \<and> kind e = ReloadError"
    by (rule reloadFluentdConfig_fail_fast_requests(1) [OF pre fails run])
  show "reloadFluentdConfig_body w ip tr_k = (r, tr')"
    by (rule reloadFluentdConfig_fail_fast_requests(2) [OF pre fails run])
  show "requests tr' = requests tr @ map reload_request pre
      \<or> requests tr' = requests tr @ map reload_request (pre @ [ip])"
    by (rule reloadFluentdConfig_fail_fast_requests(3) [OF pre fails run])
next
  assume "\<forall>pre ip post tr_k.
      ips = pre @ ip # post \<and> reloadFluentdConfig w pre tr = (Inr (), tr_k)
      \<longrightarrow> \<not> attempt_fails w ip tr_k"
  then have "fst (reloadFluentdConfig w ips tr) = Inr ()"
    by (rule reloadFluentdConfig_all_succeed)
  with assms show "r = Inr ()" by simp
qed

theorem reloadFluentdConfig_one_request_each_witness:
  "(\<forall>ip tr. \<not> attempt_fails example_world ip tr)
   \<and> fst (reloadFluentdConfig example_world [''10.0.0.1'', ''10.0.0.2''] []) = Inr ()
   \<and> requests (snd (reloadFluentdConfig example_world [''10.0.0.1'', ''10.0.0.2''] []))
       = map reload_request [''10.0.0.1'', ''10.0.0.2'']
   \<and> reloadFluentdConfig unavailable_world [''10.0.0.1''] [] = (Inr (), example_served ''10.0.0.1'')
   \<and> attempt_fails unavailable_world ''10.0.0.2'' (example_served ''10.0.0.1'')
   \<and> fst (reloadFluentdConfig unavailable_world [''10.0.0.1'', ''10.0.0.2'', ''10.0.0.3''] [])
       = Inl (FailedToReload ''503 Service Unavailable'')
   \<and> kind (FailedToReload ''503 Service Unavailable'') = ReloadError
   \<and> requests (snd (reloadFluentdConfig unavailable_world [''10.0.0.1'', ''10.0.0.2'', ''10.0.0.3''] []))
       = map reload_request [''10.0.0.1'', ''10.0.0.2'']"
proof -
  have never: "\<forall>ip tr. \<not> attempt_fails example_world ip tr"
    by (simp add: attempt_fails_def request_errors_or_status_400_def body_read_fails_def
          example_world_def Let_def)
  note good = reloadFluentdConfig_one_request_each [OF prod.collapse [symmetric],
      of example_world "[''10.0.0.1'', ''10.0.0.2'']" "[]"]
  have ok: "fst (reloadFluentdConfig example_world [''10.0.0.1'', ''10.0.0.2''] []) = Inr ()"
    using good [THEN conjunct2, THEN conjunct2, THEN conjunct2] never by blast
  have all: "requests (snd (reloadFluentdConfig example_world [''10.0.0.1'', ''10.0.0.2''] []))
      = map reload_request [''10.0.0.1'', ''10.0.0.2'']"
    using good [THEN conjunct1, THEN mp, OF ok] by simp
  have pre: "reloadFluentdConfig unavailable_world [''10.0.0.1''] [] = (Inr (), example_served ''10.0.0.1'')"
    by (simp add: reloadFluentdConfig_body_def unavailable_world_def example_world_def
          example_served_def Let_def)
  have fails: "attempt_fails unavailable_world ''10.0.0.2'' (example_served ''10.0.0.1'')"
    by (simp add: attempt_fails_def request_errors_or_status_400_def unavailable_world_def
          example_world_def Let_def)
  have split: "[''10.0.0.1'', ''10.0.0.2'', ''10.0.0.3''] = [''10.0.0.1''] @ ''10.0.0.2'' # [''10.0.0.3'']"
    by simp
  note bad = reloadFluentdConfig_one_request_each [OF prod.collapse [symmetric],
      of unavailable_world "[''10.0.0.1'', ''10.0.0.2'', ''10.0.0.3'']" "[]",
      THEN conjunct2, THEN conjunct2, THEN conjunct1, rule_format,
      OF conjI, OF split conjI, OF pre fails]
  have body: "reloadFluentdConfig_body unavailable_world ''10.0.0.2'' (example_served ''10.0.0.1'')
      = (Inl (FailedToReload ''503 Service Unavailable''),
         example_served ''10.0.0.1''
         @ [Log (LogReloading ''10.0.0.2''),
            ClientDo \<lparr>Method = ''GET'', URL = ''http://10.0.0.2:24444/api/config.gracefulReload''\<rparr>
              (5 * Second)])"
    by (simp add: reloadFluentdConfig_body_def unavailable_world_def example_world_def Let_def)
  have run: "reloadFluentdConfig unavailable_world [''10.0.0.1'', ''10.0.0.2'', ''10.0.0.3''] []
      = (Inl (FailedToReload ''503 Service Unavailable''),
         example_served ''10.0.0.1''
         @ [Log (LogReloading ''10.0.0.2''),
            ClientDo \<lparr>Method = ''GET'', URL = ''http://10.0.0.2:24444/api/config.gracefulReload''\<rparr>
              (5 * Second)])"
    using bad [THEN conjunct2, THEN conjunct1] body by (simp add: prod_eq_iff)
  have err: "fst (reloadFluentdConfig unavailable_world [''10.0.0.1'', ''10.0.0.2'', ''10.0.0.3''] [])
      = Inl (FailedToReload ''503 Service Unavailable'')"
    by (simp only: run fst_conv)
  have sent: "requests (snd (reloadFluentdConfig unavailable_world [''10.0.0.1'', ''10.0.0.2'', ''10.0.0.3''] []))
      = map reload_request [''10.0.0.1'', ''10.0.0.2'']"
    by (simp only: run snd_conv) (simp add: example_served_def reload_request_def)
  have k: "kind (FailedToReload ''503 Service Unavailable'') = ReloadError"
    by simp
  show ?thesis
    using never ok all pre fails err k sent by blast
qed

text \<open>
  Claim C8, as stated, fails: a replica answers 200 and the body cannot be read; no
  request error, no status of 400 or more, and yet the reload fails.
\<close>

theorem reload_request_status_200_fails:
  "fst (reloadFluentdConfig_body read_error_world ''10.0.0.1'' []) = Inl (FailedToReadBody ''unexpected EOF'')
   \<and> \<not> request_errors_or_status_400 read_error_world ''10.0.0.1'' []"
  by (simp add: reloadFluentdConfig_body_def request_errors_or_status_400_def
        read_error_world_def example_world_def Let_def)

text \<open>
  Claim C8, amended. Each reload attempt sends at most one request, a GET to
  \<open>http://<ip>:24444/api/config.gracefulReload\<close> through a client whose timeout is five
  seconds. The attempt fails, always with a reload error, exactly when the request cannot
  be created or sent, or the response status is at least 400, or the body of a response
  with a lower status cannot be read. A response with a status below 400 whose body is
  read is a success whatever the body says; the body is only logged.
\<close>

theorem reload_request_failure_exact:
  "requests (snd (reloadFluentdConfig_body w ip tr)) =
     requests tr @
       (if http_NewRequest_err w ''GET'' (''http://'' @ ip @ '':24444/api/config.gracefulReload'') = None
        then [(\<lparr>Method = ''GET'', URL = ''http://'' @ ip @ '':24444/api/config.gracefulReload''\<rparr>,
               5 * Second)]
        else [])
   \<and> (isl (fst (reloadFluentdConfig_body w ip tr)) \<longleftrightarrow>
        request_errors_or_status_400 w ip tr \<or> body_read_fails w ip tr)
   \<and> (\<forall>e. fst (reloadFluentdConfig_body w ip tr) = Inl e \<longrightarrow> kind e = ReloadError)
   \<and> (\<forall>resp b.
        http_NewRequest_err w ''GET'' (''http://'' @ ip @ '':24444/api/config.gracefulReload'') = None
        \<and> client_Do w (tr @ [Log (LogReloading ip)]) (5 * Second)
            \<lparr>Method = ''GET'', URL = ''http://'' @ ip @ '':24444/api/config.gracefulReload''\<rparr> = Inr resp
        \<and> StatusCode resp < 400 \<and> Body resp = Inr b
        \<longrightarrow> reloadFluentdConfig_body w ip tr =
              (Inr (),
               tr @ [Log (LogReloading ip),
                     ClientDo \<lparr>Method = ''GET'', URL = ''http://'' @ ip @ '':24444/api/config.gracefulReload''\<rparr>
                       (5 * Second),
                     Log (LogResponse b)]))"
proof (intro conjI)
  show "requests (snd (reloadFluentdConfig_body w ip tr)) =
     requests tr @
       (if http_NewRequest_err w ''GET'' (''http://'' @ ip @ '':24444/api/config.gracefulReload'') = None
        then [(\<lparr>Method = ''GET'', URL = ''http://'' @ ip @ '':24444/api/config.gracefulReload''\<rparr>,
               5 * Second)]
        else [])"
    by (simp add: reloadFluentdConfig_body_requests reload_request_def)
  show "isl (fst (reloadFluentdConfig_body w ip tr)) \<longleftrightarrow>
        request_errors_or_status_400 w ip tr \<or> body_read_fails w ip tr"
    by (auto simp: reloadFluentdConfig_body_def request_errors_or_status_400_def
          body_read_fails_def Let_def split: option.splits sum.splits)
  show "\<forall>e. fst (reloadFluentdConfig_body w ip tr) = Inl e \<longrightarrow> kind e = ReloadError"
    by (metis reloadFluentdConfig_body_error prod.collapse)
  show "\<forall>resp b.
        http_NewRequest_err w ''GET'' (''http://'' @ ip @ '':24444/api/config.gracefulReload'') = None
        \<and> client_Do w (tr @ [Log (LogReloading ip)]) (5 * Second)
            \<lparr>Method = ''GET'', URL = ''http://'' @ ip @ '':24444/api/config.gracefulReload''\<rparr> = Inr resp
        \<and> StatusCode resp < 400 \<and> Body resp = Inr b
        \<longrightarrow> reloadFluentdConfig_body w ip tr =
              (Inr (),
               tr @ [Log (LogReloading ip),
                     ClientDo \<lparr>Method = ''GET'', URL = ''http://'' @ ip @ '':24444/api/config.gracefulReload''\<rparr>
                       (5 * Second),
                     Log (LogResponse b)])"
    by (simp add: reloadFluentdConfig_body_def Let_def)
qed

theorem reload_request_failure_exact_witness:
  "reloadFluentdConfig_body example_world ''10.0.0.1'' [] =
     (Inr (),
      [Log (LogReloading ''10.0.0.1''),
       ClientDo \<lparr>Method = ''GET'', URL = ''http://10.0.0.1:24444/api/config.gracefulReload''\<rparr> 5000000000,
       Log (LogResponse ''ok'')])
   \<and> isl (fst (reloadFluentdConfig_body unavailable_world ''10.0.0.2'' []))
   \<and> request_errors_or_status_400 unavailable_world ''10.0.0.2'' []
   \<and> kind (FailedToReload ''503 Service Unavailable'') = ReloadError
   \<and> fst (reloadFluentdConfig_body unavailable_world ''10.0.0.2'' [])
       = Inl (FailedToReload ''503 Service Unavailable'')
   \<and> isl (fst (reloadFluentdConfig_body read_error_world ''10.0.0.1'' []))
   \<and> body_read_fails read_error_world ''10.0.0.1'' []"
  using
    reload_request_failure_exact [of example_world "''10.0.0.1''" "[]"]
    reload_request_failure_exact [of unavailable_world "''10.0.0.2''" "[]"]
    reload_request_failure_exact [of read_error_world "''10.0.0.1''" "[]"]
  by (simp add: reloadFluentdConfig_body_def request_errors_or_status_400_def body_read_fails_def
        read_error_world_def unavailable_world_def example_world_def Let_def Second_def)

section \<open>The run as a whole\<close>

lemma main_eq:
  "main w =
     (case until_Reconciling w of
        (Inl e, tr) \<Rightarrow> (Inl e, tr)
      | (Inr (fluentdIPs, expiry, certificate), tr3) \<Rightarrow>
          reconcile w fluentdIPs expiry certificate tr3)"
  by (simp add: main_def until_Reconciling_def reconcile_def Let_def
        split: option.splits sum.splits prod.splits)

lemma reconcile_valid:
  "metav1_Equal (cert_Status_NotAfter certificate) (Some (NewTime expiry)) \<Longrightarrow>
   reconcile w fluentdIPs expiry certificate tr3 =
     (Inr (), tr3 @ [Log (LogWillExpire expiry),
                     Log (LogWillBeRenewed (cert_Status_RenewalTime certificate)),
                     Log LogValid])"
  by (simp add: reconcile_def Let_def)

lemma reconcile_not_valid:
  "\<not> metav1_Equal (cert_Status_NotAfter certificate) (Some (NewTime expiry)) \<Longrightarrow>
   reconcile w fluentdIPs expiry certificate tr3 =
     reloadFluentdConfig w fluentdIPs (reload_start expiry certificate tr3)"
  by (simp add: reconcile_def reload_start_def Let_def)

lemma metav1_Equal_iff:
  "metav1_Equal recorded (Some (NewTime expiry)) \<longleftrightarrow>
     (\<exists>r. recorded = Some r \<and> sec r = sec expiry \<and> nsec r = nsec expiry)"
  by (cases recorded) (simp_all add: NewTime_def Time_Equal_def)

lemma stages_append [simp]: "stages (tr @ tr') = stages tr @ stages tr'"
  by (simp add: stages_def List.map_filter_def)

lemma stages_simps [simp]:
  "stages [] = []"
  "stages (Log l # tr) = stages tr"
  "stages (PodsList ns sel # tr) = Discovering # stages tr"
  "stages (TlsDial network addr # tr) = Probing # stages tr"
  "stages (CertificatesGet uri # tr) = LookingUp # stages tr"
  "stages (ClientDo req timeout # tr) = Reloading # stages tr"
  by (simp_all add: stages_def List.map_filter_def)

lemma stages_requests: "Reloading \<notin> set (stages tr) \<Longrightarrow> requests tr = []"
  by (induction tr rule: requests.induct) simp_all

lemma no_requests_before_reload:
  "stages tr = [Discovering, Probing, LookingUp] \<Longrightarrow> requests tr = []"
  by (simp add: stages_requests)

lemma stages_logs [simp]: "stages (map (\<lambda>x. Log (f x)) xs) = []"
  by (induction xs) simp_all

lemma getFluentdIPs_stages:
  "getFluentdIPs w a tr = (r, tr') \<Longrightarrow> stages tr' = stages tr @ [Discovering]"
  by (auto simp: getFluentdIPs_def Let_def getFluentdIPs_loop_eq split: sum.splits)

lemma getCRD_loop_stages:
  "getCRD_loop w certName certs tr = (r, tr') \<Longrightarrow> stages tr' = stages tr"
proof (induction certs arbitrary: tr)
  case Nil
  then show ?case by simp
next
  case (Cons cert certs)
  show ?case
  proof (cases "EqualFold w (cert_Name cert) certName")
    case True
    with Cons.prems show ?thesis by simp
  next
    case False
    with Cons.prems have "getCRD_loop w certName certs
        (tr @ [Log (LogNotFluentdCertificate (cert_Name cert))]) = (r, tr')"
      by simp
    then have "stages tr' = stages (tr @ [Log (LogNotFluentdCertificate (cert_Name cert))])"
      by (rule Cons.IH)
    then show ?thesis by simp
  qed
qed

lemma getCRD_stages:
  "getCRD w a tr = (r, tr') \<Longrightarrow> stages tr' = stages tr @ [LookingUp]"
  by (auto simp: getCRD_def Let_def split: sum.splits dest: getCRD_loop_stages)

lemma checkCert_stages:
  "checkCert w serviceURL tr = (r, tr') \<Longrightarrow> stages tr' = stages tr @ [Probing]"
  by (auto simp: checkCert_def Let_def split: sum.splits option.splits list.splits)

lemma until_Reconciling_Inr:
  assumes "until_Reconciling w = (Inr (fluentdIPs, expiry, certificate), tr3)"
  obtains config tr1 tr2 where "started w config"
    and "getFluentdIPs w (app_of config) [] = (Inr fluentdIPs, tr1)"
    and "checkCert w (config_serviceURL config) tr1 = (Inr expiry, tr2)"
    and "getCRD w (app_of config) tr2 = (Inr certificate, tr3)"
  using assms
  by (auto simp: until_Reconciling_def started_def app_of_def Let_def
        split: option.splits sum.splits prod.splits)

lemma until_Reconciling_stages:
  assumes "until_Reconciling w = (Inr (fluentdIPs, expiry, certificate), tr3)"
  shows "stages tr3 = [Discovering, Probing, LookingUp]"
proof -
  obtain config tr1 tr2 where "getFluentdIPs w (app_of config) [] = (Inr fluentdIPs, tr1)"
    and "checkCert w (config_serviceURL config) tr1 = (Inr expiry, tr2)"
    and "getCRD w (app_of config) tr2 = (Inr certificate, tr3)"
    using assms by (rule until_Reconciling_Inr)
  then show ?thesis
    by (simp add: getFluentdIPs_stages checkCert_stages getCRD_stages)
qed

lemma example_until_Reconciling:
  "until_Reconciling example_world =
     (Inr ([''10.0.0.1'', ''10.0.0.2''], notAfter_2024_06_01, fluentd_tls),
      example_tr3 notAfter_2024_06_01)"
  by (simp add: until_Reconciling_def getConfig_def getFluentdIPs_def checkCert_def getCRD_def
        tls_Dial_def Conn_VerifyHostname_def example_world_def example_pods_def example_leaf_def
        example_tr3_def other_tls_def fluentd_tls_def Let_def)

lemma unchanged_until_Reconciling:
  "until_Reconciling unchanged_world =
     (Inr ([''10.0.0.1'', ''10.0.0.2''], notAfter_2024_03_01\<lparr>loc := ''Local''\<rparr>, fluentd_tls),
      example_tr3 (notAfter_2024_03_01\<lparr>loc := ''Local''\<rparr>))"
  by (simp add: until_Reconciling_def getConfig_def getFluentdIPs_def checkCert_def getCRD_def
        tls_Dial_def Conn_VerifyHostname_def unchanged_world_def example_world_def
        example_pods_def example_leaf_def example_tr3_def other_tls_def fluentd_tls_def Let_def)

lemma subsecond_until_Reconciling:
  "until_Reconciling subsecond_world =
     (Inr ([''10.0.0.1'', ''10.0.0.2''], notAfter_2024_03_01\<lparr>nsec := 500000000\<rparr>, fluentd_tls),
      example_tr3 (notAfter_2024_03_01\<lparr>nsec := 500000000\<rparr>))"
  by (simp add: until_Reconciling_def getConfig_def getFluentdIPs_def checkCert_def getCRD_def
        tls_Dial_def Conn_VerifyHostname_def subsecond_world_def example_world_def
        example_pods_def example_leaf_def example_tr3_def other_tls_def fluentd_tls_def Let_def)

lemma unissued_until_Reconciling:
  "until_Reconciling unissued_world =
     (Inr ([''10.0.0.1'', ''10.0.0.2''], notAfter_2024_06_01,
           fluentd_tls\<lparr>cert_Status_NotAfter := None\<rparr>),
      example_tr3 notAfter_2024_06_01)"
  by (simp add: until_Reconciling_def getConfig_def getFluentdIPs_def checkCert_def getCRD_def
        tls_Dial_def Conn_VerifyHostname_def unissued_world_def example_world_def
        example_pods_def example_leaf_def example_tr3_def other_tls_def fluentd_tls_def Let_def)

lemma no_replica_until_Reconciling:
  "until_Reconciling no_replica_world =
     (Inr ([], notAfter_2024_06_01, fluentd_tls), example_tr3 notAfter_2024_06_01)"
  by (simp add: until_Reconciling_def getConfig_def getFluentdIPs_def checkCert_def getCRD_def
        tls_Dial_def Conn_VerifyHostname_def no_replica_world_def example_world_def
        example_leaf_def example_tr3_def other_tls_def fluentd_tls_def Let_def)

text \<open>
  Claim C1. Once discovery, probe and lookup have succeeded, the comparison decides the
  rest of the run. The comparison holds exactly when the record carries an expiry that is
  the same instant, to the nanosecond, as the expiry the server presented. When it holds,
  the run logs that the certificate is valid and ends normally, having sent no reload
  request. When it does not hold, the rest of the run is the reload of the discovered
  addresses.
\<close>

theorem reload_iff_expiry_differs:
  assumes "until_Reconciling w = (Inr (fluentdIPs, expiry, certificate), tr3)"
  shows "(metav1_Equal (cert_Status_NotAfter certificate) (Some (NewTime expiry)) \<longleftrightarrow>
            (\<exists>r. cert_Status_NotAfter certificate = Some r
                 \<and> sec r = sec expiry \<and> nsec r = nsec expiry))
       \<and> (metav1_Equal (cert_Status_NotAfter certificate) (Some (NewTime expiry)) \<longrightarrow>
            main w = (Inr (), tr3 @ [Log (LogWillExpire expiry),
                                     Log (LogWillBeRenewed (cert_Status_RenewalTime certificate)),
                                     Log LogValid])
          \<and> requests (snd (main w)) = [])
       \<and> (\<not> metav1_Equal (cert_Status_NotAfter certificate) (Some (NewTime expiry)) \<longrightarrow>
            main w = reloadFluentdConfig w fluentdIPs (reload_start expiry certificate tr3))"
proof (intro conjI impI)
  show "metav1_Equal (cert_Status_NotAfter certificate) (Some (NewTime expiry)) \<longleftrightarrow>
      (\<exists>r. cert_Status_NotAfter certificate = Some r \<and> sec r = sec expiry \<and> nsec r = nsec expiry)"
    by (rule metav1_Equal_iff)
next
  assume eq: "metav1_Equal (cert_Status_NotAfter certificate) (Some (NewTime expiry))"
  then show valid: "main w = (Inr (), tr3 @ [Log (LogWillExpire expiry),
      Log (LogWillBeRenewed (cert_Status_RenewalTime certificate)), Log LogValid])"
    using assms by (simp add: main_eq reconcile_valid)
  have "requests tr3 = []"
    using assms by (intro no_requests_before_reload until_Reconciling_stages)
  then show "requests (snd (main w)) = []"
    by (simp add: valid)
next
  assume "\<not> metav1_Equal (cert_Status_NotAfter certificate) (Some (NewTime expiry))"
  then show "main w = reloadFluentdConfig w fluentdIPs (reload_start expiry certificate tr3)"
    using assms by (simp add: main_eq reconcile_not_valid)
qed

theorem reload_iff_expiry_differs_witness:
  "until_Reconciling unchanged_world =
     (Inr ([''10.0.0.1'', ''10.0.0.2''], notAfter_2024_03_01\<lparr>loc := ''Local''\<rparr>, fluentd_tls),
      example_tr3 (notAfter_2024_03_01\<lparr>loc := ''Local''\<rparr>))
   \<and> metav1_Equal (cert_Status_NotAfter fluentd_tls)
        (Some (NewTime (notAfter_2024_03_01\<lparr>loc := ''Local''\<rparr>)))
   \<and> fst (main unchanged_world) = Inr ()
   \<and> requests (snd (main unchanged_world)) = []
   \<and> until_Reconciling example_world =
       (Inr ([''10.0.0.1'', ''10.0.0.2''], notAfter_2024_06_01, fluentd_tls),
        example_tr3 notAfter_2024_06_01)
   \<and> \<not> metav1_Equal (cert_Status_NotAfter fluentd_tls) (Some (NewTime notAfter_2024_06_01))
   \<and> fst (main example_world) = Inr ()
   \<and> requests (snd (main example_world)) = map reload_request [''10.0.0.1'', ''10.0.0.2'']"
proof -
  have eq: "metav1_Equal (cert_Status_NotAfter fluentd_tls)
      (Some (NewTime (notAfter_2024_03_01\<lparr>loc := ''Local''\<rparr>)))"
    by (simp add: fluentd_tls_def NewTime_def Time_Equal_def)
  have neq: "\<not> metav1_Equal (cert_Status_NotAfter fluentd_tls) (Some (NewTime notAfter_2024_06_01))"
    by (simp add: fluentd_tls_def NewTime_def Time_Equal_def notAfter_2024_03_01_def
          notAfter_2024_06_01_def)
  have reload: "reloadFluentdConfig example_world [''10.0.0.1'', ''10.0.0.2'']
      (reload_start notAfter_2024_06_01 fluentd_tls (example_tr3 notAfter_2024_06_01))
      = (Inr (), reload_start notAfter_2024_06_01 fluentd_tls (example_tr3 notAfter_2024_06_01)
           @ [Log (LogReloading ''10.0.0.1''), ClientDo (fst (reload_request ''10.0.0.1'')) (5 * Second),
              Log (LogResponse ''ok''),
              Log (LogReloading ''10.0.0.2''), ClientDo (fst (reload_request ''10.0.0.2'')) (5 * Second),
              Log (LogResponse ''ok'')])"
    by (simp add: reloadFluentdConfig_body_def example_world_def reload_request_def Let_def)
  have tr3: "requests (reload_start notAfter_2024_06_01 fluentd_tls (example_tr3 notAfter_2024_06_01)) = []"
    by (simp add: reload_start_def example_tr3_def)
  note valid = reload_iff_expiry_differs [OF unchanged_until_Reconciling,
      THEN conjunct2, THEN conjunct1, THEN mp, OF eq]
  note differs = reload_iff_expiry_differs [OF example_until_Reconciling,
      THEN conjunct2, THEN conjunct2, THEN mp, OF neq]
  have ok: "fst (main unchanged_world) = Inr ()"
    by (simp only: valid [THEN conjunct1] fst_conv)
  have none: "requests (snd (main unchanged_world)) = []"
    by (rule valid [THEN conjunct2])
  have ok': "fst (main example_world) = Inr ()"
    by (simp only: differs reload fst_conv)
  have sent: "requests (snd (main example_world)) = map reload_request [''10.0.0.1'', ''10.0.0.2'']"
    by (simp only: differs reload snd_conv requests_append tr3)
       (simp add: reload_request_def)
  show ?thesis
    using unchanged_until_Reconciling example_until_Reconciling eq neq ok none ok' sent
    by blast
qed

text \<open>
  Claim C5. The comparison is \<open>Time.Equal\<close> on the untruncated timestamps:
  \<open>metav1.NewTime\<close> keeps the nanoseconds, and two timestamps are equal only when both
  seconds and nanoseconds agree. So when the recorded and the presented expiry agree in
  the seconds and differ in the nanoseconds, the comparison fails and the run reloads.
\<close>

theorem subsecond_difference_reloads:
  assumes "until_Reconciling w = (Inr (fluentdIPs, expiry, certificate), tr3)"
    and "cert_Status_NotAfter certificate = Some recorded"
    and "sec recorded = sec expiry"
    and "nsec recorded \<noteq> nsec expiry"
  shows "nsec (NewTime expiry) = nsec expiry
       \<and> (\<forall>t. metav1_Equal (Some t) (Some (NewTime expiry)) \<longleftrightarrow>
                sec t = sec expiry \<and> nsec t = nsec expiry)
       \<and> \<not> metav1_Equal (cert_Status_NotAfter certificate) (Some (NewTime expiry))
       \<and> main w = reloadFluentdConfig w fluentdIPs (reload_start expiry certificate tr3)"
proof -
  have neq: "\<not> metav1_Equal (cert_Status_NotAfter certificate) (Some (NewTime expiry))"
    using assms(2,4) by (simp add: NewTime_def Time_Equal_def)
  then have "main w = reloadFluentdConfig w fluentdIPs (reload_start expiry certificate tr3)"
    using assms(1) by (simp add: main_eq reconcile_not_valid)
  with neq show ?thesis
    by (simp add: NewTime_def Time_Equal_def)
qed

theorem subsecond_difference_reloads_witness:
  "until_Reconciling subsecond_world =
     (Inr ([''10.0.0.1'', ''10.0.0.2''], notAfter_2024_03_01\<lparr>nsec := 500000000\<rparr>, fluentd_tls),
      example_tr3 (notAfter_2024_03_01\<lparr>nsec := 500000000\<rparr>))
   \<and> cert_Status_NotAfter fluentd_tls = Some notAfter_2024_03_01
   \<and> sec notAfter_2024_03_01 = sec (notAfter_2024_03_01\<lparr>nsec := 500000000\<rparr>)
   \<and> nsec notAfter_2024_03_01 \<noteq> nsec (notAfter_2024_03_01\<lparr>nsec := 500000000\<rparr>)
   \<and> main subsecond_world =
       reloadFluentdConfig subsecond_world [''10.0.0.1'', ''10.0.0.2'']
         (reload_start (notAfter_2024_03_01\<lparr>nsec := 500000000\<rparr>) fluentd_tls
            (example_tr3 (notAfter_2024_03_01\<lparr>nsec := 500000000\<rparr>)))
   \<and> requests (snd (main subsecond_world)) = map reload_request [''10.0.0.1'', ''10.0.0.2'']"
proof -
  have rec: "cert_Status_NotAfter fluentd_tls = Some notAfter_2024_03_01"
    by (simp add: fluentd_tls_def)
  have s: "sec notAfter_2024_03_01 = sec (notAfter_2024_03_01\<lparr>nsec := 500000000\<rparr>)"
    by simp
  have n: "nsec notAfter_2024_03_01 \<noteq> nsec (notAfter_2024_03_01\<lparr>nsec := 500000000\<rparr>)"
    by (simp add: notAfter_2024_03_01_def)
  note run = subsecond_difference_reloads [OF subsecond_until_Reconciling rec s n,
      THEN conjunct2, THEN conjunct2, THEN conjunct2]
  have "requests (snd (reloadFluentdConfig subsecond_world [''10.0.0.1'', ''10.0.0.2'']
         (reload_start (notAfter_2024_03_01\<lparr>nsec := 500000000\<rparr>) fluentd_tls
            (example_tr3 (notAfter_2024_03_01\<lparr>nsec := 500000000\<rparr>)))))
      = map reload_request [''10.0.0.1'', ''10.0.0.2'']"
    by (simp add: reloadFluentdConfig_body_def subsecond_world_def example_world_def
          reload_request_def reload_start_def example_tr3_def Let_def)
  then have sent: "requests (snd (main subsecond_world)) = map reload_request [''10.0.0.1'', ''10.0.0.2'']"
    by (simp only: run)
  show ?thesis
    using subsecond_until_Reconciling rec s n run sent by blast
qed

lemma unissued_unavailable_until_Reconciling:
  "until_Reconciling unissued_unavailable_world =
     (Inr ([''10.0.0.1'', ''10.0.0.2''], notAfter_2024_06_01,
           fluentd_tls\<lparr>cert_Status_NotAfter := None\<rparr>),
      example_tr3 notAfter_2024_06_01)"
  by (simp add: until_Reconciling_def getConfig_def getFluentdIPs_def checkCert_def getCRD_def
        tls_Dial_def Conn_VerifyHostname_def unissued_unavailable_world_def unissued_world_def
        example_world_def example_pods_def example_leaf_def example_tr3_def other_tls_def
        fluentd_tls_def Let_def)

text \<open>
  Claim C9, as stated, fails: the record has no expiry, two replicas are discovered, the
  first answers 503; the run ends abnormally and the second replica receives no request.
\<close>

theorem missing_recorded_expiry_first_replica_fails:
  "fst (until_Reconciling unissued_unavailable_world)
     = Inr ([''10.0.0.1'', ''10.0.0.2''], notAfter_2024_06_01,
            fluentd_tls\<lparr>cert_Status_NotAfter := None\<rparr>)
   \<and> cert_Status_NotAfter (fluentd_tls\<lparr>cert_Status_NotAfter := None\<rparr>) = None
   \<and> fst (main unissued_unavailable_world) = Inl (FailedToReload ''503 Service Unavailable'')
   \<and> requests (snd (main unissued_unavailable_world)) = [reload_request ''10.0.0.1'']
   \<and> reload_request ''10.0.0.2'' \<notin> set (requests (snd (main unissued_unavailable_world)))"
proof -
  have neq: "\<not> metav1_Equal (cert_Status_NotAfter (fluentd_tls\<lparr>cert_Status_NotAfter := None\<rparr>))
      (Some (NewTime notAfter_2024_06_01))"
    by simp
  have m: "main unissued_unavailable_world =
      reloadFluentdConfig unissued_unavailable_world [''10.0.0.1'', ''10.0.0.2'']
        (reload_start notAfter_2024_06_01 (fluentd_tls\<lparr>cert_Status_NotAfter := None\<rparr>)
           (example_tr3 notAfter_2024_06_01))"
    using neq by (simp add: main_eq unissued_unavailable_until_Reconciling reconcile_not_valid)
  have run: "reloadFluentdConfig unissued_unavailable_world [''10.0.0.1'', ''10.0.0.2'']
        (reload_start notAfter_2024_06_01 (fluentd_tls\<lparr>cert_Status_NotAfter := None\<rparr>)
           (example_tr3 notAfter_2024_06_01))
      = (Inl (FailedToReload ''503 Service Unavailable''),
         reload_start notAfter_2024_06_01 (fluentd_tls\<lparr>cert_Status_NotAfter := None\<rparr>)
           (example_tr3 notAfter_2024_06_01)
         @ [Log (LogReloading ''10.0.0.1''),
            ClientDo \<lparr>Method = ''GET'', URL = ''http://10.0.0.1:24444/api/config.gracefulReload''\<rparr>
              (5 * Second)])"
    by (simp add: reloadFluentdConfig_body_def unissued_unavailable_world_def unissued_world_def
          example_world_def Let_def)
  have start: "requests (reload_start notAfter_2024_06_01
      (fluentd_tls\<lparr>cert_Status_NotAfter := None\<rparr>) (example_tr3 notAfter_2024_06_01)) = []"
    by (simp add: reload_start_def example_tr3_def)
  have err: "fst (main unissued_unavailable_world) = Inl (FailedToReload ''503 Service Unavailable'')"
    by (simp only: m run fst_conv)
  have sent: "requests (snd (main unissued_unavailable_world)) = [reload_request ''10.0.0.1'']"
    by (simp only: m run snd_conv requests_append start) (simp add: reload_request_def)
  have other: "reload_request ''10.0.0.2'' \<notin> set [reload_request ''10.0.0.1'']"
    by (simp add: reload_request_def)
  show ?thesis
    using err sent other by (simp add: unissued_unavailable_until_Reconciling)
qed

text \<open>
  Claim C9, amended. When the certificate record has no recorded expiry, the comparison
  with any presented expiry fails, and the rest of the run is the reload of the
  discovered addresses: requests go to the addresses in list order; every discovered
  address receives one when no attempt fails (then the run ends normally), and no address
  after the first failing attempt receives any (then the run ends abnormally).
\<close>

theorem missing_recorded_expiry_reloads:
  assumes "until_Reconciling w = (Inr (fluentdIPs, expiry, certificate), tr3)"
    and "cert_Status_NotAfter certificate = None"
  shows "\<not> metav1_Equal (cert_Status_NotAfter certificate) (Some (NewTime expiry))
       \<and> main w = reloadFluentdConfig w fluentdIPs (reload_start expiry certificate tr3)
       \<and> (\<exists>n\<le>length fluentdIPs.
             requests (snd (main w)) = map reload_request (take n fluentdIPs))
       \<and> (fst (main w) = Inr () \<longrightarrow> requests (snd (main w)) = map reload_request fluentdIPs)
       \<and> ((\<forall>pre ip post tr_k.
              fluentdIPs = pre @ ip # post
              \<and> reloadFluentdConfig w pre (reload_start expiry certificate tr3) = (Inr (), tr_k)
              \<longrightarrow> \<not> attempt_fails w ip tr_k)
            \<longrightarrow> fst (main w) = Inr ())
       \<and> (\<forall>pre ip post tr_k.
             fluentdIPs = pre @ ip # post
             \<and> reloadFluentdConfig w pre (reload_start expiry certificate tr3) = (Inr (), tr_k)
             \<and> attempt_fails w ip tr_k
             \<longrightarrow> (\<exists>e. fst (main w) = Inl e \<and> kind e = ReloadError)
               \<and> (requests (snd (main w)) = map reload_request pre
                  \<or> requests (snd (main w)) = map reload_request (pre @ [ip])))"
proof -
  let ?start = "reload_start expiry certificate tr3"
  have neq: "\<not> metav1_Equal (cert_Status_NotAfter certificate) (Some (NewTime expiry))"
    using assms(2) by simp
  then have run: "main w = reloadFluentdConfig w fluentdIPs ?start"
    using assms(1) by (simp add: main_eq reconcile_not_valid)
  have "requests tr3 = []"
    using assms(1) by (intro no_requests_before_reload until_Reconciling_stages)
  then have start: "requests ?start = []"
    by (simp add: reload_start_def)
  have prefix: "\<exists>n\<le>length fluentdIPs.
      requests (snd (main w)) = map reload_request (take n fluentdIPs)"
    using reloadFluentdConfig_requests_prefix [of fluentdIPs w ?start] start
    by (simp add: run)
  have all: "requests (snd (main w)) = map reload_request fluentdIPs" if "fst (main w) = Inr ()"
  proof -
    from that run
    have "reloadFluentdConfig w fluentdIPs ?start = (Inr (), snd (main w))"
      by (metis prod.collapse)
    then show ?thesis
      using start by (simp add: reloadFluentdConfig_ok)
  qed
  have ok: "fst (main w) = Inr ()"
    if "\<forall>pre ip post tr_k. fluentdIPs = pre @ ip # post
        \<and> reloadFluentdConfig w pre ?start = (Inr (), tr_k) \<longrightarrow> \<not> attempt_fails w ip tr_k"
    using reloadFluentdConfig_all_succeed [OF that] by (simp add: run)
  have fast: "(\<exists>e. fst (main w) = Inl e \<and> kind e = ReloadError)
      \<and> (requests (snd (main w)) = map reload_request pre
         \<or> requests (snd (main w)) = map reload_request (pre @ [ip]))"
    if "fluentdIPs = pre @ ip # post" and "reloadFluentdConfig w pre ?start = (Inr (), tr_k)"
      and "attempt_fails w ip tr_k" for pre ip post tr_k
  proof -
    have r: "reloadFluentdConfig w (pre @ ip # post) ?start = (fst (main w), snd (main w))"
      using that(1) by (simp add: run)
    show ?thesis
      using reloadFluentdConfig_fail_fast_requests(1) [OF that(2,3) r]
        reloadFluentdConfig_fail_fast_requests(3) [OF that(2,3) r] start
      by simp
  qed
  show ?thesis
    using neq run prefix all ok fast by blast
qed

theorem missing_recorded_expiry_reloads_witness:
  "until_Reconciling unissued_world =
     (Inr ([''10.0.0.1'', ''10.0.0.2''], notAfter_2024_06_01,
           fluentd_tls\<lparr>cert_Status_NotAfter := None\<rparr>),
      example_tr3 notAfter_2024_06_01)
   \<and> cert_Status_NotAfter (fluentd_tls\<lparr>cert_Status_NotAfter := None\<rparr>) = None
   \<and> (\<forall>ip tr. \<not> attempt_fails unissued_world ip tr)
   \<and> fst (main unissued_world) = Inr ()
   \<and> requests (snd (main unissued_world)) = map reload_request [''10.0.0.1'', ''10.0.0.2'']
   \<and> until_Reconciling unissued_unavailable_world =
       (Inr ([''10.0.0.1'', ''10.0.0.2''], notAfter_2024_06_01,
             fluentd_tls\<lparr>cert_Status_NotAfter := None\<rparr>),
        example_tr3 notAfter_2024_06_01)
   \<and> attempt_fails unissued_unavailable_world ''10.0.0.1''
        (reload_start notAfter_2024_06_01 (fluentd_tls\<lparr>cert_Status_NotAfter := None\<rparr>)
           (example_tr3 notAfter_2024_06_01))
   \<and> (\<exists>e. fst (main unissued_unavailable_world) = Inl e \<and> kind e = ReloadError)
   \<and> (requests (snd (main unissued_unavailable_world)) = map reload_request []
      \<or> requests (snd (main unissued_unavailable_world)) = map reload_request ([] @ [''10.0.0.1'']))"
proof -
  have nil: "cert_Status_NotAfter (fluentd_tls\<lparr>cert_Status_NotAfter := None\<rparr>) = None"
    by simp
  note good = missing_recorded_expiry_reloads [OF unissued_until_Reconciling nil]
  have never: "\<forall>ip tr. \<not> attempt_fails unissued_world ip tr"
    by (simp add: attempt_fails_def request_errors_or_status_400_def body_read_fails_def
          unissued_world_def example_world_def Let_def)
  have ok: "fst (main unissued_world) = Inr ()"
    using good [THEN conjunct2, THEN conjunct2, THEN conjunct2, THEN conjunct2, THEN conjunct1]
      never by blast
  have all: "requests (snd (main unissued_world)) = map reload_request [''10.0.0.1'', ''10.0.0.2'']"
    using good [THEN conjunct2, THEN conjunct2, THEN conjunct2, THEN conjunct1] ok by blast
  have split: "[''10.0.0.1'', ''10.0.0.2''] = [] @ ''10.0.0.1'' # [''10.0.0.2'']"
    by simp
  have pre: "reloadFluentdConfig unissued_unavailable_world []
        (reload_start notAfter_2024_06_01 (fluentd_tls\<lparr>cert_Status_NotAfter := None\<rparr>)
           (example_tr3 notAfter_2024_06_01))
      = (Inr (), reload_start notAfter_2024_06_01 (fluentd_tls\<lparr>cert_Status_NotAfter := None\<rparr>)
           (example_tr3 notAfter_2024_06_01))"
    by simp
  have fails: "attempt_fails unissued_unavailable_world ''10.0.0.1''
      (reload_start notAfter_2024_06_01 (fluentd_tls\<lparr>cert_Status_NotAfter := None\<rparr>)
         (example_tr3 notAfter_2024_06_01))"
    by (simp add: attempt_fails_def request_errors_or_status_400_def
          unissued_unavailable_world_def unissued_world_def example_world_def Let_def)
  note bad = missing_recorded_expiry_reloads [OF unissued_unavailable_until_Reconciling nil,
      THEN conjunct2, THEN conjunct2, THEN conjunct2, THEN conjunct2, THEN conjunct2,
      rule_format, OF conjI, OF split conjI, OF pre fails]
  show ?thesis
    using unissued_until_Reconciling nil never ok all unissued_unavailable_until_Reconciling
      fails bad
    by blast
qed

text \<open>
  Claim C10. When the comparison fails and discovery found no address, the reload sends
  no request and succeeds, and the run ends normally.
\<close>

theorem no_replicas_reload_succeeds:
  assumes "until_Reconciling w = (Inr ([], expiry, certificate), tr3)"
    and "\<not> metav1_Equal (cert_Status_NotAfter certificate) (Some (NewTime expiry))"
  shows "reloadFluentdConfig w [] (reload_start expiry certificate tr3)
           = (Inr (), reload_start expiry certificate tr3)
       \<and> main w = (Inr (), reload_start expiry certificate tr3)
       \<and> requests (snd (main w)) = []"
proof -
  have run: "main w = (Inr (), reload_start expiry certificate tr3)"
    using assms by (simp add: main_eq reconcile_not_valid)
  have "requests tr3 = []"
    using assms(1) by (intro no_requests_before_reload until_Reconciling_stages)
  then have "requests (snd (main w)) = []"
    by (simp add: run reload_start_def)
  with run show ?thesis by simp
qed

theorem no_replicas_reload_succeeds_witness:
  "until_Reconciling no_replica_world =
     (Inr ([], notAfter_2024_06_01, fluentd_tls), example_tr3 notAfter_2024_06_01)
   \<and> \<not> metav1_Equal (cert_Status_NotAfter fluentd_tls) (Some (NewTime notAfter_2024_06_01))
   \<and> fst (main no_replica_world) = Inr ()
   \<and> requests (snd (main no_replica_world)) = []"
proof -
  have neq: "\<not> metav1_Equal (cert_Status_NotAfter fluentd_tls) (Some (NewTime notAfter_2024_06_01))"
    by (simp add: fluentd_tls_def NewTime_def Time_Equal_def notAfter_2024_03_01_def
          notAfter_2024_06_01_def)
  note run = no_replicas_reload_succeeds [OF no_replica_until_Reconciling neq]
  have ok: "fst (main no_replica_world) = Inr ()"
    by (simp only: run [THEN conjunct2, THEN conjunct1] fst_conv)
  have none: "requests (snd (main no_replica_world)) = []"
    by (rule run [THEN conjunct2, THEN conjunct2])
  show ?thesis
    using no_replica_until_Reconciling neq ok none by blast
qed

subsection \<open>Failures\<close>

lemma getConfig_fails_iff:
  "isl (getConfig w) \<longleftrightarrow>
     os_LookupEnv w ''FLUENTD_SERVICE_URL'' = None
     \<or> os_LookupEnv w ''FLUENTD_CERT_NAME'' = None
     \<or> os_LookupEnv w ''FLUENTD_NAMESPACE'' = None"
  by (simp add: getConfig_def split: option.splits)

lemma main_config_fails:
  "rest_InClusterConfig w \<noteq> None \<or> kubernetes_NewForConfig w \<noteq> None \<or> isl (getConfig w) \<Longrightarrow>
   isl (fst (main w)) \<and> snd (main w) = []"
  by (cases "getConfig w") (auto simp: main_def split: option.splits)

lemma main_discovery_fails:
  "started w config \<Longrightarrow> getFluentdIPs w (app_of config) [] = (Inl e, tr1) \<Longrightarrow>
   main w = (Inl e, tr1)"
  by (simp add: main_def started_def app_of_def Let_def)

lemma main_probe_fails:
  "started w config \<Longrightarrow> getFluentdIPs w (app_of config) [] = (Inr fluentdIPs, tr1) \<Longrightarrow>
   checkCert w (config_serviceURL config) tr1 = (Inl e, tr2) \<Longrightarrow>
   main w = (Inl e, tr2)"
  by (simp add: main_def started_def app_of_def Let_def)

lemma main_lookup_fails:
  "started w config \<Longrightarrow> getFluentdIPs w (app_of config) [] = (Inr fluentdIPs, tr1) \<Longrightarrow>
   checkCert w (config_serviceURL config) tr1 = (Inr expiry, tr2) \<Longrightarrow>
   getCRD w (app_of config) tr2 = (Inl e, tr3) \<Longrightarrow>
   main w = (Inl e, tr3)"
  by (simp add: main_def started_def app_of_def Let_def)

lemma until_Reconciling_Inl_stages:
  assumes "until_Reconciling w = (Inl e, tr)"
  shows "\<exists>n. stages tr = take n [Discovering, Probing, LookingUp]"
proof (cases "rest_InClusterConfig w = None \<and> kubernetes_NewForConfig w = None")
  case False
  with assms have "tr = []"
    by (auto simp: until_Reconciling_def split: option.splits)
  then show ?thesis by (intro exI [of _ 0]) simp
next
  case ready: True
  show ?thesis
  proof (cases "getConfig w")
    case (Inl e0)
    with assms ready have "tr = []"
      by (simp add: until_Reconciling_def)
    then show ?thesis by (intro exI [of _ 0]) simp
  next
    case (Inr config)
    obtain r1 tr1 where d: "getFluentdIPs w (app_of config) [] = (r1, tr1)"
      by (cases "getFluentdIPs w (app_of config) []")
    then have s1: "stages tr1 = [Discovering]"
      by (simp add: getFluentdIPs_stages)
    show ?thesis
    proof (cases r1)
      case (Inl e1)
      with assms ready Inr d have "tr = tr1"
        by (simp add: until_Reconciling_def app_of_def Let_def)
      with s1 show ?thesis by (intro exI [of _ 1]) simp
    next
      case ips: (Inr fluentdIPs)
      obtain r2 tr2 where p: "checkCert w (config_serviceURL config) tr1 = (r2, tr2)"
        by (cases "checkCert w (config_serviceURL config) tr1")
      then have s2: "stages tr2 = [Discovering, Probing]"
        using s1 by (simp add: checkCert_stages)
      show ?thesis
      proof (cases r2)
        case (Inl e2)
        with assms ready Inr d ips p have "tr = tr2"
          by (simp add: until_Reconciling_def app_of_def Let_def)
        with s2 show ?thesis by (intro exI [of _ 2]) (simp add: numeral_2_eq_2)
      next
        case exp: (Inr expiry)
        obtain r3 tr3 where l: "getCRD w (app_of config) tr2 = (r3, tr3)"
          by (cases "getCRD w (app_of config) tr2")
        then have s3: "stages tr3 = [Discovering, Probing, LookingUp]"
          using s2 by (simp add: getCRD_stages)
        have "tr = tr3"
          using assms ready Inr d ips p exp l
          by (cases r3) (simp_all add: until_Reconciling_def app_of_def Let_def)
        with s3 show ?thesis by (intro exI [of _ 3]) simp
      qed
    qed
  qed
qed

lemma reloadFluentdConfig_body_stages:
  "\<exists>k. stages (snd (reloadFluentdConfig_body w ip tr)) = stages tr @ replicate k Reloading"
proof (cases "http_NewRequest_err w ''GET'' (''http://'' @ ip @ '':24444/api/config.gracefulReload'')")
  case None
  then have "stages (snd (reloadFluentdConfig_body w ip tr)) = stages tr @ replicate 1 Reloading"
    by (simp add: reloadFluentdConfig_body_def Let_def split: sum.splits)
  then show ?thesis by blast
next
  case (Some err)
  then have "stages (snd (reloadFluentdConfig_body w ip tr)) = stages tr @ replicate 0 Reloading"
    by (simp add: reloadFluentdConfig_body_def Let_def)
  then show ?thesis by blast
qed

lemma reloadFluentdConfig_stages:
  "\<exists>k. stages (snd (reloadFluentdConfig w ips tr)) = stages tr @ replicate k Reloading"
proof (induction ips arbitrary: tr)
  case Nil
  have "stages (snd (reloadFluentdConfig w [] tr)) = stages tr @ replicate 0 Reloading"
    by simp
  then show ?case by blast
next
  case (Cons ip ips)
  obtain r tr0 where body: "reloadFluentdConfig_body w ip tr = (r, tr0)"
    by (cases "reloadFluentdConfig_body w ip tr")
  obtain j where j: "stages tr0 = stages tr @ replicate j Reloading"
    using reloadFluentdConfig_body_stages [of w ip tr] body by auto
  show ?case
  proof (cases r)
    case (Inl e)
    with body j have "stages (snd (reloadFluentdConfig w (ip # ips) tr))
        = stages tr @ replicate j Reloading"
      by simp
    then show ?thesis by blast
  next
    case (Inr u)
    obtain k where "stages (snd (reloadFluentdConfig w ips tr0)) = stages tr0 @ replicate k Reloading"
      using Cons.IH by blast
    with body j Inr have "stages (snd (reloadFluentdConfig w (ip # ips) tr))
        = stages tr @ replicate (j + k) Reloading"
      by (simp add: replicate_add)
    then show ?thesis by blast
  qed
qed

lemma main_stages_order:
  "\<exists>n k. stages (snd (main w)) = take n [Discovering, Probing, LookingUp] @ replicate k Reloading
     \<and> (0 < k \<longrightarrow> n = 3) \<and> (fst (main w) = Inr () \<longrightarrow> n = 3)"
proof -
  obtain r tr where u: "until_Reconciling w = (r, tr)"
    by (cases "until_Reconciling w")
  show ?thesis
  proof (cases r)
    case (Inl e)
    with u have m: "main w = (Inl e, tr)"
      by (simp add: main_eq)
    obtain n where "stages tr = take n [Discovering, Probing, LookingUp]"
      using until_Reconciling_Inl_stages u Inl by blast
    with m have "stages (snd (main w)) = take n [Discovering, Probing, LookingUp] @ replicate 0 Reloading
        \<and> (0 < (0::nat) \<longrightarrow> n = 3) \<and> (fst (main w) = Inr () \<longrightarrow> n = 3)"
      by simp
    then show ?thesis by blast
  next
    case (Inr x)
    obtain fluentdIPs expiry certificate where x: "x = (fluentdIPs, expiry, certificate)"
      by (cases x)
    with u Inr have u': "until_Reconciling w = (Inr (fluentdIPs, expiry, certificate), tr)"
      by simp
    then have s3: "stages tr = [Discovering, Probing, LookingUp]"
      by (rule until_Reconciling_stages)
    have m: "main w = reconcile w fluentdIPs expiry certificate tr"
      using u' by (simp add: main_eq)
    obtain k where "stages (snd (main w)) = [Discovering, Probing, LookingUp] @ replicate k Reloading"
    proof (cases "metav1_Equal (cert_Status_NotAfter certificate) (Some (NewTime expiry))")
      case True
      with m s3 have "stages (snd (main w)) = [Discovering, Probing, LookingUp] @ replicate 0 Reloading"
        by (simp add: reconcile_valid)
      then show ?thesis by (rule that)
    next
      case False
      obtain k where "stages (snd (reloadFluentdConfig w fluentdIPs (reload_start expiry certificate tr)))
          = stages (reload_start expiry certificate tr) @ replicate k Reloading"
        using reloadFluentdConfig_stages by blast
      with False m s3 have "stages (snd (main w)) = [Discovering, Probing, LookingUp] @ replicate k Reloading"
        by (simp add: reconcile_not_valid reload_start_def)
      then show ?thesis by (rule that)
    qed
    then have "stages (snd (main w)) = take 3 [Discovering, Probing, LookingUp] @ replicate k Reloading
        \<and> (0 < k \<longrightarrow> (3::nat) = 3) \<and> (fst (main w) = Inr () \<longrightarrow> (3::nat) = 3)"
      by simp
    then show ?thesis by blast
  qed
qed

text \<open>
  Claim C6. Every error ends the run abnormally where it occurs, and nothing later
  executes. A failure of client set-up or of \<open>getConfig\<close> (any of the three variables
  unset) ends it before any outside call. A failure of discovery ends it after the pod
  listing alone; a failure of the probe after listing and dial; a failure of the lookup
  after listing, dial and certificate listing; a failure of a reload request with that
  attempt, the addresses before it having been served: as soon as the addresses \<open>pre\<close>
  are served and the attempt for the next address fails, the run ends abnormally with
  that attempt and sends nothing to the addresses after it. In every run the outside calls
  are an initial segment of listing, dial, certificate listing, each made once, followed
  by reload requests only; reload requests occur, and a run ends normally, only after all
  three.
\<close>

theorem every_error_is_fatal:
  "(rest_InClusterConfig w \<noteq> None \<or> kubernetes_NewForConfig w \<noteq> None \<or> isl (getConfig w)
      \<longrightarrow> isl (fst (main w)) \<and> snd (main w) = [])
   \<and> (isl (getConfig w) \<longleftrightarrow>
         os_LookupEnv w ''FLUENTD_SERVICE_URL'' = None
         \<or> os_LookupEnv w ''FLUENTD_CERT_NAME'' = None
         \<or> os_LookupEnv w ''FLUENTD_NAMESPACE'' = None)
   \<and> (\<forall>config e tr1.
         started w config \<and> getFluentdIPs w (app_of config) [] = (Inl e, tr1)
         \<longrightarrow> main w = (Inl e, tr1) \<and> stages tr1 = [Discovering])
   \<and> (\<forall>config fluentdIPs tr1 e tr2.
         started w config \<and> getFluentdIPs w (app_of config) [] = (Inr fluentdIPs, tr1)
         \<and> checkCert w (config_serviceURL config) tr1 = (Inl e, tr2)
         \<longrightarrow> main w = (Inl e, tr2) \<and> stages tr2 = [Discovering, Probing])
   \<and> (\<forall>config fluentdIPs tr1 expiry tr2 e tr3.
         started w config \<and> getFluentdIPs w (app_of config) [] = (Inr fluentdIPs, tr1)
         \<and> checkCert w (config_serviceURL config) tr1 = (Inr expiry, tr2)
         \<and> getCRD w (app_of config) tr2 = (Inl e, tr3)
         \<longrightarrow> main w = (Inl e, tr3) \<and> stages tr3 = [Discovering, Probing, LookingUp])
   \<and> (\<forall>fluentdIPs expiry certificate tr3 e tr5.
         until_Reconciling w = (Inr (fluentdIPs, expiry, certificate), tr3)
         \<and> \<not> metav1_Equal (cert_Status_NotAfter certificate) (Some (NewTime expiry))
         \<and> reloadFluentdConfig w fluentdIPs (reload_start expiry certificate tr3) = (Inl e, tr5)
         \<longrightarrow> main w = (Inl e, tr5)
           \<and> (\<exists>k tr_k. k < length fluentdIPs
                \<and> reloadFluentdConfig_body w (fluentdIPs ! k) tr_k = (Inl e, tr5)
                \<and> requests tr_k = map reload_request (take k fluentdIPs)))
   \<and> (\<forall>fluentdIPs expiry certificate tr3 pre ip post tr_k.
         until_Reconciling w = (Inr (fluentdIPs, expiry, certificate), tr3)
         \<and> \<not> metav1_Equal (cert_Status_NotAfter certificate) (Some (NewTime expiry))
         \<and> fluentdIPs = pre @ ip # post
         \<and> reloadFluentdConfig w pre (reload_start expiry certificate tr3) = (Inr (), tr_k)
         \<and> attempt_fails w ip tr_k
         \<longrightarrow> (\<exists>e. fst (main w) = Inl e \<and> kind e = ReloadError)
           \<and> main w = reloadFluentdConfig_body w ip tr_k
           \<and> (requests (snd (main w)) = map reload_request pre
              \<or> requests (snd (main w)) = map reload_request (pre @ [ip])))
   \<and> (\<exists>n k. stages (snd (main w)) =
               take n [Discovering, Probing, LookingUp] @ replicate k Reloading
         \<and> (0 < k \<longrightarrow> n = 3) \<and> (fst (main w) = Inr () \<longrightarrow> n = 3))"
proof (intro conjI allI impI; (elim conjE)?)
  assume "rest_InClusterConfig w \<noteq> None \<or> kubernetes_NewForConfig w \<noteq> None \<or> isl (getConfig w)"
  then show "isl (fst (main w))" and "snd (main w) = []"
    using main_config_fails by blast+
next
  show "isl (getConfig w) \<longleftrightarrow>
      os_LookupEnv w ''FLUENTD_SERVICE_URL'' = None
      \<or> os_LookupEnv w ''FLUENTD_CERT_NAME'' = None
      \<or> os_LookupEnv w ''FLUENTD_NAMESPACE'' = None"
    by (rule getConfig_fails_iff)
next
  fix config e tr1
  assume "started w config" and d: "getFluentdIPs w (app_of config) [] = (Inl e, tr1)"
  then show "main w = (Inl e, tr1)"
    by (rule main_discovery_fails)
  show "stages tr1 = [Discovering]"
    using d by (simp add: getFluentdIPs_stages)
next
  fix config fluentdIPs tr1 e tr2
  assume s: "started w config" and d: "getFluentdIPs w (app_of config) [] = (Inr fluentdIPs, tr1)"
    and p: "checkCert w (config_serviceURL config) tr1 = (Inl e, tr2)"
  then show "main w = (Inl e, tr2)"
    by (rule main_probe_fails)
  show "stages tr2 = [Discovering, Probing]"
    using d p by (simp add: getFluentdIPs_stages checkCert_stages)
next
  fix config fluentdIPs tr1 expiry tr2 e tr3
  assume s: "started w config" and d: "getFluentdIPs w (app_of config) [] = (Inr fluentdIPs, tr1)"
    and p: "checkCert w (config_serviceURL config) tr1 = (Inr expiry, tr2)"
    and l: "getCRD w (app_of config) tr2 = (Inl e, tr3)"
  then show "main w = (Inl e, tr3)"
    by (rule main_lookup_fails)
  show "stages tr3 = [Discovering, Probing, LookingUp]"
    using d p l by (simp add: getFluentdIPs_stages checkCert_stages getCRD_stages)
next
  fix fluentdIPs expiry certificate tr3 e tr5
  assume u: "until_Reconciling w = (Inr (fluentdIPs, expiry, certificate), tr3)"
    and neq: "\<not> metav1_Equal (cert_Status_NotAfter certificate) (Some (NewTime expiry))"
    and r: "reloadFluentdConfig w fluentdIPs (reload_start expiry certificate tr3) = (Inl e, tr5)"
  show "main w = (Inl e, tr5)"
    using u neq r by (simp add: main_eq reconcile_not_valid)
  have "requests tr3 = []"
    using u by (intro no_requests_before_reload until_Reconciling_stages)
  then have "requests (reload_start expiry certificate tr3) = []"
    by (simp add: reload_start_def)
  then show "\<exists>k tr_k. k < length fluentdIPs
      \<and> reloadFluentdConfig_body w (fluentdIPs ! k) tr_k = (Inl e, tr5)
      \<and> requests tr_k = map reload_request (take k fluentdIPs)"
    using reloadFluentdConfig_fails_at [OF r] by auto
next
  fix fluentdIPs expiry certificate tr3 pre ip post tr_k
  assume u: "until_Reconciling w = (Inr (fluentdIPs, expiry, certificate), tr3)"
    and neq: "\<not> metav1_Equal (cert_Status_NotAfter certificate) (Some (NewTime expiry))"
    and split: "fluentdIPs = pre @ ip # post"
    and pre: "reloadFluentdConfig w pre (reload_start expiry certificate tr3) = (Inr (), tr_k)"
    and fails: "attempt_fails w ip tr_k"
  have r: "reloadFluentdConfig w (pre @ ip # post) (reload_start expiry certificate tr3)
      = (fst (main w), snd (main w))"
    using u neq split by (simp add: main_eq reconcile_not_valid)
  have "requests tr3 = []"
    using u by (intro no_requests_before_reload until_Reconciling_stages)
  then have start: "requests (reload_start expiry certificate tr3) = []"
    by (simp add: reload_start_def)
  show "\<exists>e. fst (main w) = Inl e \<and> kind e = ReloadError"
    by (rule reloadFluentdConfig_fail_fast_requests(1) [OF pre fails r])
  show "main w = reloadFluentdConfig_body w ip tr_k"
    using reloadFluentdConfig_fail_fast_requests(2) [OF pre fails r] by simp
  show "requests (snd (main w)) = map reload_request pre
      \<or> requests (snd (main w)) = map reload_request (pre @ [ip])"
    using reloadFluentdConfig_fail_fast_requests(3) [OF pre fails r] start by simp
next
  show "\<exists>n k. stages (snd (main w)) =
               take n [Discovering, Probing, LookingUp] @ replicate k Reloading
         \<and> (0 < k \<longrightarrow> n = 3) \<and> (fst (main w) = Inr () \<longrightarrow> n = 3)"
    by (rule main_stages_order)
qed

theorem every_error_is_fatal_witness:
  "isl (getConfig no_env_world)
   \<and> isl (fst (main no_env_world)) \<and> snd (main no_env_world) = []
   \<and> main forbidden_pods_world =
       (Inl (FailedToGetPods ''forbidden''), [PodsList ''logging'' ''app=logging''])
   \<and> fst (main refused_world) = Inl (NoSSL ''connection refused'')
   \<and> stages (snd (main refused_world)) = [Discovering, Probing]
   \<and> fst (main forbidden_certificates_world) = Inl (FailedToGetCertificates ''forbidden'')
   \<and> stages (snd (main forbidden_certificates_world)) = [Discovering, Probing, LookingUp]
   \<and> fst (main unavailable_world) = Inl (FailedToReload ''503 Service Unavailable'')
   \<and> stages (snd (main unavailable_world)) =
       [Discovering, Probing, LookingUp, Reloading, Reloading]
   \<and> reloadFluentdConfig unavailable_world [''10.0.0.1'']
         (reload_start notAfter_2024_06_01 fluentd_tls (example_tr3 notAfter_2024_06_01))
       = (Inr (), reload_start notAfter_2024_06_01 fluentd_tls (example_tr3 notAfter_2024_06_01)
                  @ example_served ''10.0.0.1'')
   \<and> attempt_fails unavailable_world ''10.0.0.2''
         (reload_start notAfter_2024_06_01 fluentd_tls (example_tr3 notAfter_2024_06_01)
          @ example_served ''10.0.0.1'')
   \<and> main unavailable_world =
       reloadFluentdConfig_body unavailable_world ''10.0.0.2''
         (reload_start notAfter_2024_06_01 fluentd_tls (example_tr3 notAfter_2024_06_01)
          @ example_served ''10.0.0.1'')"
proof -
  have env: "isl (getConfig no_env_world)"
    by (simp add: getConfig_def no_env_world_def example_world_def)
  then have "rest_InClusterConfig no_env_world \<noteq> None
      \<or> kubernetes_NewForConfig no_env_world \<noteq> None \<or> isl (getConfig no_env_world)"
    by simp
  note c1 = every_error_is_fatal [of no_env_world, THEN conjunct1, THEN mp, OF this]
  have s2: "started forbidden_pods_world example_config"
    by (simp add: started_def getConfig_def forbidden_pods_world_def example_world_def
          example_config_def)
  have d2: "getFluentdIPs forbidden_pods_world (app_of example_config) []
      = (Inl (FailedToGetPods ''forbidden''), [PodsList ''logging'' ''app=logging''])"
    by (simp add: getFluentdIPs_def app_of_def forbidden_pods_world_def example_world_def
          example_config_def Let_def)
  note c2 = every_error_is_fatal [of forbidden_pods_world, THEN conjunct2, THEN conjunct2,
      THEN conjunct1, rule_format, OF conjI, OF s2 d2]
  have s3: "started refused_world example_config"
    by (simp add: started_def getConfig_def refused_world_def example_world_def
          example_config_def)
  have d3: "getFluentdIPs refused_world (app_of example_config) []
      = (Inr [''10.0.0.1'', ''10.0.0.2''],
         [PodsList ''logging'' ''app=logging'', Log (LogPodSkipped ''debug'')])"
    by (simp add: getFluentdIPs_def app_of_def refused_world_def example_world_def
          example_config_def example_pods_def Let_def)
  have p3: "checkCert refused_world (config_serviceURL example_config)
        [PodsList ''logging'' ''app=logging'', Log (LogPodSkipped ''debug'')]
      = (Inl (NoSSL ''connection refused''),
         [PodsList ''logging'' ''app=logging'', Log (LogPodSkipped ''debug''),
          TlsDial ''tcp'' ''logging.donchev.is:443''])"
    by (simp add: checkCert_def tls_Dial_def refused_world_def example_world_def
          example_config_def Let_def)
  note c3 = every_error_is_fatal [of refused_world, THEN conjunct2, THEN conjunct2,
      THEN conjunct2, THEN conjunct1, rule_format, OF conjI, OF s3 conjI, OF d3 p3]
  have s4: "started forbidden_certificates_world example_config"
    by (simp add: started_def getConfig_def forbidden_certificates_world_def example_world_def
          example_config_def)
  have d4: "getFluentdIPs forbidden_certificates_world (app_of example_config) []
      = (Inr [''10.0.0.1'', ''10.0.0.2''],
         [PodsList ''logging'' ''app=logging'', Log (LogPodSkipped ''debug'')])"
    by (simp add: getFluentdIPs_def app_of_def forbidden_certificates_world_def
          example_world_def example_config_def example_pods_def Let_def)
  have p4: "checkCert forbidden_certificates_world (config_serviceURL example_config)
        [PodsList ''logging'' ''app=logging'', Log (LogPodSkipped ''debug'')]
      = (Inr notAfter_2024_06_01,
         [PodsList ''logging'' ''app=logging'', Log (LogPodSkipped ''debug''),
          TlsDial ''tcp'' ''logging.donchev.is:443'',
          Log (LogIssuerExpiry ''CN=R3'' notAfter_2024_06_01)])"
    by (simp add: checkCert_def tls_Dial_def Conn_VerifyHostname_def
          forbidden_certificates_world_def example_world_def example_leaf_def
          example_config_def Let_def)
  have l4: "getCRD forbidden_certificates_world (app_of example_config)
        [PodsList ''logging'' ''app=logging'', Log (LogPodSkipped ''debug''),
         TlsDial ''tcp'' ''logging.donchev.is:443'',
         Log (LogIssuerExpiry ''CN=R3'' notAfter_2024_06_01)]
      = (Inl (FailedToGetCertificates ''forbidden''),
         [PodsList ''logging'' ''app=logging'', Log (LogPodSkipped ''debug''),
          TlsDial ''tcp'' ''logging.donchev.is:443'',
          Log (LogIssuerExpiry ''CN=R3'' notAfter_2024_06_01),
          CertificatesGet ''/apis/cert-manager.io/v1/namespaces/logging/certificates''])"
    by (simp add: getCRD_def app_of_def forbidden_certificates_world_def example_world_def
          example_config_def Let_def)
  note c4 = every_error_is_fatal [of forbidden_certificates_world, THEN conjunct2,
      THEN conjunct2, THEN conjunct2, THEN conjunct2, THEN conjunct1, rule_format,
      OF conjI, OF s4 conjI, OF d4 conjI, OF p4 l4]
  have u5: "until_Reconciling unavailable_world =
      (Inr ([''10.0.0.1'', ''10.0.0.2''], notAfter_2024_06_01, fluentd_tls),
       example_tr3 notAfter_2024_06_01)"
    by (simp add: until_Reconciling_def getConfig_def getFluentdIPs_def checkCert_def getCRD_def
          tls_Dial_def Conn_VerifyHostname_def unavailable_world_def example_world_def
          example_pods_def example_leaf_def example_tr3_def other_tls_def fluentd_tls_def Let_def)
  have neq: "\<not> metav1_Equal (cert_Status_NotAfter fluentd_tls) (Some (NewTime notAfter_2024_06_01))"
    by (simp add: fluentd_tls_def NewTime_def Time_Equal_def notAfter_2024_03_01_def
          notAfter_2024_06_01_def)
  have r5: "reloadFluentdConfig unavailable_world [''10.0.0.1'', ''10.0.0.2'']
        (reload_start notAfter_2024_06_01 fluentd_tls (example_tr3 notAfter_2024_06_01))
      = (Inl (FailedToReload ''503 Service Unavailable''),
         reload_start notAfter_2024_06_01 fluentd_tls (example_tr3 notAfter_2024_06_01)
         @ [Log (LogReloading ''10.0.0.1''),
            ClientDo \<lparr>Method = ''GET'', URL = ''http://10.0.0.1:24444/api/config.gracefulReload''\<rparr>
              (5 * Second),
            Log (LogResponse ''ok''),
            Log (LogReloading ''10.0.0.2''),
            ClientDo \<lparr>Method = ''GET'', URL = ''http://10.0.0.2:24444/api/config.gracefulReload''\<rparr>
              (5 * Second)])"
    by (simp add: reloadFluentdConfig_body_def unavailable_world_def example_world_def Let_def)
  note c5 = every_error_is_fatal [of unavailable_world, THEN conjunct2, THEN conjunct2,
      THEN conjunct2, THEN conjunct2, THEN conjunct2, THEN conjunct1, rule_format,
      OF conjI, OF u5 conjI, OF neq r5, THEN conjunct1]
  have st5: "stages (reload_start notAfter_2024_06_01 fluentd_tls (example_tr3 notAfter_2024_06_01))
      = [Discovering, Probing, LookingUp]"
    by (simp add: reload_start_def example_tr3_def)
  have a: "isl (fst (main no_env_world))" and b: "snd (main no_env_world) = []"
    using c1 by blast+
  have c: "main forbidden_pods_world =
      (Inl (FailedToGetPods ''forbidden''), [PodsList ''logging'' ''app=logging''])"
    by (rule c2 [THEN conjunct1])
  have d: "fst (main refused_world) = Inl (NoSSL ''connection refused'')"
    by (simp only: c3 [THEN conjunct1] fst_conv)
  have e: "stages (snd (main refused_world)) = [Discovering, Probing]"
    by (simp only: c3 snd_conv)
  have f: "fst (main forbidden_certificates_world) = Inl (FailedToGetCertificates ''forbidden'')"
    by (simp only: c4 [THEN conjunct1] fst_conv)
  have g: "stages (snd (main forbidden_certificates_world)) = [Discovering, Probing, LookingUp]"
    by (simp only: c4 snd_conv)
  have h: "fst (main unavailable_world) = Inl (FailedToReload ''503 Service Unavailable'')"
    by (simp only: c5 fst_conv)
  have i: "stages (snd (main unavailable_world)) =
      [Discovering, Probing, LookingUp, Reloading, Reloading]"
    by (simp only: c5 snd_conv stages_append st5) simp
  have split: "[''10.0.0.1'', ''10.0.0.2''] = [''10.0.0.1''] @ ''10.0.0.2'' # []"
    by simp
  have pre: "reloadFluentdConfig unavailable_world [''10.0.0.1'']
        (reload_start notAfter_2024_06_01 fluentd_tls (example_tr3 notAfter_2024_06_01))
      = (Inr (), reload_start notAfter_2024_06_01 fluentd_tls (example_tr3 notAfter_2024_06_01)
                 @ example_served ''10.0.0.1'')"
    by (simp add: reloadFluentdConfig_body_def unavailable_world_def example_world_def
          example_served_def Let_def)
  have fails: "attempt_fails unavailable_world ''10.0.0.2''
      (reload_start notAfter_2024_06_01 fluentd_tls (example_tr3 notAfter_2024_06_01)
       @ example_served ''10.0.0.1'')"
    by (simp add: attempt_fails_def request_errors_or_status_400_def unavailable_world_def
          example_world_def Let_def)
  note c6 = every_error_is_fatal [of unavailable_world, THEN conjunct2, THEN conjunct2,
      THEN conjunct2, THEN conjunct2, THEN conjunct2, THEN conjunct2, THEN conjunct1,
      rule_format, OF conjI, OF u5 conjI, OF neq conjI, OF split conjI, OF pre fails,
      THEN conjunct2, THEN conjunct1]
  show ?thesis
    using env a b c d e f g h i pre fails c6 by blast
qed

end
